theory Spec2Isabelle
  imports Main
begin

section \<open>vue-declassify: the class-to-object translation of \<open>src/operations/vue_object.ts\<close>\<close>

text \<open>
  The engine reads ts-morph nodes of a parsed source file and builds TypeScript
  compiler nodes with \<open>ts.factory\<close>. Both sides are modelled as data: the nodes that are
  read as records holding what the engine asks of them (\<open>getName()\<close>, \<open>getTypeNode()\<close>,
  \<open>getText()\<close>, ...), the nodes that are built as a datatype with one constructor per
  factory function. Strings are byte strings in UTF-8; every pattern the code searches
  for (\<open>'\n'\<close>, \<open>'Array<'\<close>, \<open>'[]'\<close>) is ASCII.
\<close>

subsection \<open>Errors\<close>

text \<open>One constructor per place where the code throws.\<close>

datatype error =
    NameMissing               \<comment> \<open>\<open>ClassDeclaration.getNameOrThrow()\<close>\<close>
  | TypeNodeMissing           \<comment> \<open>\<open>PropertyDeclaration.getTypeNodeOrThrow()\<close>\<close>
  | InitializerMissing        \<comment> \<open>\<open>PropertyDeclaration.getInitializerOrThrow()\<close>\<close>
  | BodyMissing               \<comment> \<open>\<open>getBodyOrThrow()\<close> of an accessor\<close>
  | SetterParameterMissing    \<comment> \<open>"Computed setter doesn't seem to have a parameter."\<close>
  | SetterWithoutGetter       \<comment> \<open>"Found an illegal computed setter without a getter."\<close>

subsection \<open>The nodes the engine reads\<close>

record jsdoc =
  jsdoc_comment :: "string option"    \<comment> \<open>\<open>compilerNode.comment\<close>\<close>
  jsdoc_fullText :: string            \<comment> \<open>\<open>getFullText()\<close>\<close>

text \<open>
  \<open>getType()\<close>: the checker's type. \<open>isString()\<close>, \<open>isNumber()\<close> and \<open>isBoolean()\<close> test
  flags that exclude one another, so the three answers are one field.
\<close>

datatype type_kind = StringType | NumberType | BooleanType | OtherType

record ts_type =
  type_kind :: type_kind
  type_callSignatures :: nat          \<comment> \<open>\<open>getCallSignatures().length\<close>\<close>

definition isString :: "ts_type \<Rightarrow> bool" where
  "isString t = (type_kind t = StringType)"

definition isNumber :: "ts_type \<Rightarrow> bool" where
  "isNumber t = (type_kind t = NumberType)"

definition isBoolean :: "ts_type \<Rightarrow> bool" where
  "isBoolean t = (type_kind t = BooleanType)"

record property_declaration =
  pd_name :: string                   \<comment> \<open>\<open>getName()\<close>\<close>
  pd_type :: ts_type                  \<comment> \<open>\<open>getType()\<close>\<close>
  pd_typeNode :: "string option"      \<comment> \<open>\<open>getTypeNode()\<close>, as its \<open>getText()\<close>\<close>
  pd_initializer :: "string option"   \<comment> \<open>\<open>getInitializer()\<close>, as its \<open>getText()\<close>\<close>
  pd_jsDocs :: "jsdoc list"           \<comment> \<open>\<open>getJsDocs()\<close>\<close>

text \<open>
  A property assignment \<open>key: value\<close> of an object literal of the source. The compiler's
  \<open>PropertyAssignment\<close> has a mandatory \<open>initializer\<close>, so \<open>getInitializerOrThrow()\<close> on
  one always returns.
\<close>

record property_assignment =
  pa_name :: string
  pa_initializer :: string            \<comment> \<open>\<open>getInitializerOrThrow().getText()\<close>\<close>

record prop_model =
  prop_declaration :: property_declaration
  prop_default :: "property_assignment option"
  prop_required :: "property_assignment option"

record parameter_declaration =
  param_name :: string
  param_typeNode :: "string option"   \<comment> \<open>\<open>getTypeNode()\<close>, as its \<open>getText()\<close>\<close>

text \<open>A \<open>Block\<close> is read through \<open>getStatementsWithComments()\<close>: the texts, in order.\<close>

type_synonym block = "string list"

record get_accessor =
  get_returnTypeNode :: "string option"
  get_body :: "block option"

record set_accessor =
  set_parameters :: "parameter_declaration list"
  set_body :: "block option"

record computed_pair =
  getter :: "get_accessor option"
  setter :: "set_accessor option"

record class_declaration =
  class_name :: "string option"       \<comment> \<open>\<open>getName()\<close>\<close>
  class_jsDocs :: "jsdoc list"

text \<open>
  What \<open>vue_class.extract\<close> returns. \<open>vue_computed\<close> is the record
  \<open>Record<string, {getter?, setter?}>\<close> in the order of \<open>Object.entries\<close>.
\<close>

record vue_model =
  vue_declaration :: class_declaration
  vue_decorator_properties :: "property_assignment list"
  vue_props :: "prop_model list"
  vue_data :: "property_declaration list"
  vue_computed :: "(string \<times> computed_pair) list"

subsection \<open>The nodes the engine builds\<close>

datatype syntax_kind = MultiLineCommentTrivia | AnyKeyword

text \<open>An entry of \<open>emitNode.leadingComments\<close>: kind, text, \<open>hasTrailingNewLine\<close>.\<close>

datatype synthetic_comment = SyntheticComment syntax_kind string bool

text \<open>
  A type node is either taken over from the source (\<open>.compilerNode\<close>, identified by
  its text) or made by \<open>createKeywordTypeNode\<close>.
\<close>

datatype ts_type_node = CompilerTypeNode string | KeywordTypeNode syntax_kind

datatype ts_expression =
    Identifier string                                   \<comment> \<open>\<open>createIdentifier(text)\<close>\<close>
  | StringLiteral string bool                           \<comment> \<open>\<open>createStringLiteral(text, isSingleQuote)\<close>\<close>
  | FalseLiteral                                        \<comment> \<open>\<open>createFalse()\<close>\<close>
  | ObjectLiteralExpression "ts_element list" bool      \<comment> \<open>\<open>createObjectLiteralExpression(properties, multiLine)\<close>\<close>
  | CallExpression ts_expression "ts_expression list"   \<comment> \<open>\<open>createCallExpression(expression, undefined, arguments)\<close>\<close>
and ts_element =
    PropertyAssignment string ts_expression "synthetic_comment list"
      \<comment> \<open>\<open>createPropertyAssignment(name, initializer)\<close>, and its leading comments\<close>
  | MethodDeclaration string "parameter_declaration list" "ts_type_node option" ts_block
      "synthetic_comment list"
      \<comment> \<open>\<open>createMethodDeclaration(.., name, .., parameters, type, body)\<close>\<close>
  | CompilerNode property_assignment "synthetic_comment list"
      \<comment> \<open>\<open>.compilerNode\<close> of a property assignment of the source\<close>
and ts_statement =
    ExpressionStatement ts_expression
  | ReturnStatement ts_expression
and ts_block =
    Block "ts_statement list" bool                      \<comment> \<open>\<open>createBlock(statements, multiLine)\<close>\<close>

fun element_name :: "ts_element \<Rightarrow> string" where
  "element_name (PropertyAssignment n e cs) = n"
| "element_name (MethodDeclaration n ps t b cs) = n"
| "element_name (CompilerNode p cs) = pa_name p"

fun element_comments :: "ts_element \<Rightarrow> synthetic_comment list" where
  "element_comments (PropertyAssignment n e cs) = cs"
| "element_comments (MethodDeclaration n ps t b cs) = cs"
| "element_comments (CompilerNode p cs) = cs"

subsection \<open>The source file and the console\<close>

datatype statement =
    ClassDeclaration class_declaration
  | ExportAssignment ts_expression bool "string list"
      \<comment> \<open>\<open>expression\<close> (the node that \<open>printNode\<close> renders), \<open>isExportEquals\<close>, the
          lines written as leading trivia\<close>
  | OtherStatement string

record source_file =
  file_imports :: "(string \<times> string) list"   \<comment> \<open>named imports: (module, identifier)\<close>
  file_statements :: "statement list"
  file_formats :: nat                         \<comment> \<open>how often \<open>formatText()\<close> ran\<close>

record world =
  source :: source_file
  console :: "string list"                    \<comment> \<open>the lines of \<open>console.log\<close>, oldest first\<close>

subsection \<open>Strings\<close>

definition newline :: char where
  "newline = CHR 0x0A"

definition startsWith :: "string \<Rightarrow> string \<Rightarrow> bool" where
  "startsWith s p = (take (length p) s = p)"

definition endsWith :: "string \<Rightarrow> string \<Rightarrow> bool" where
  "endsWith s p = (length p \<le> length s \<and> drop (length s - length p) s = p)"

text \<open>\<open>s.split(sep)\<close> for a separator of one character: never empty.\<close>

fun split_on :: "char \<Rightarrow> string \<Rightarrow> string list" where
  "split_on sep [] = [[]]"
| "split_on sep (c # cs) =
     (if c = sep then [] # split_on sep cs
      else (case split_on sep cs of
              [] \<Rightarrow> [[c]]
            | l # ls \<Rightarrow> (c # l) # ls))"

text \<open>\<open>lines.join(sep)\<close>.\<close>

fun join :: "string \<Rightarrow> string list \<Rightarrow> string" where
  "join sep [] = []"
| "join sep [l] = l"
| "join sep (l # l' # ls) = l @ sep @ join sep (l' # ls)"

text \<open>The corner brackets U+300C and U+300D of the diagnostics, in UTF-8.\<close>

definition left_corner :: string where
  "left_corner = [CHR 0xE3, CHR 0x80, CHR 0x8C]"

definition right_corner :: string where
  "right_corner = [CHR 0xE3, CHR 0x80, CHR 0x8D]"

subsection \<open>The import registration utility\<close>

text \<open>
  Modelled from the spec: \<open>imports.ensure\<close> lives in \<open>src/operations/imports.ts\<close>, which
  is not among the sources. The specification (section 6) says that
  \<open>ensure(sourceUnit, moduleName, { named: [identifiers] })\<close> idempotently guarantees
  that the listed named imports exist in the unit, deduplicating across repeated calls:
  each listed identifier that the unit does not import from the module yet is added once.
\<close>

fun ensure :: "source_file \<Rightarrow> string \<Rightarrow> string list \<Rightarrow> source_file" where
  "ensure src m [] = src"
| "ensure src m (n # ns) =
     ensure (if (m, n) \<in> set (file_imports src) then src
             else src\<lparr>file_imports := file_imports src @ [(m, n)]\<rparr>) m ns"

subsection \<open>Documentation preserver and body re-emitter\<close>

text \<open>\<open>ts.addSyntheticLeadingComment(node, kind, text, hasTrailingNewLine)\<close>.\<close>

fun addSyntheticLeadingComment ::
  "ts_element \<Rightarrow> syntax_kind \<Rightarrow> string \<Rightarrow> bool \<Rightarrow> ts_element" where
  "addSyntheticLeadingComment (PropertyAssignment n e cs) k t nl =
     PropertyAssignment n e (cs @ [SyntheticComment k t nl])"
| "addSyntheticLeadingComment (MethodDeclaration n ps ty b cs) k t nl =
     MethodDeclaration n ps ty b (cs @ [SyntheticComment k t nl])"
| "addSyntheticLeadingComment (CompilerNode p cs) k t nl =
     CompilerNode p (cs @ [SyntheticComment k t nl])"

text \<open>The text between \<open>/*\<close> and \<open>*/\<close> that \<open>createDocumentation\<close> builds from a comment.\<close>

definition documentationText :: "string \<Rightarrow> string" where
  "documentationText comment =
     ''*'' @ [newline] @
     join [newline] (map (\<lambda>line. '' * '' @ line) (split_on newline comment)) @
     [newline] @ '' ''"

text \<open>\<open>if (comment)\<close>: a string is truthy when it is not empty.\<close>

definition createDocumentation :: "ts_element \<Rightarrow> jsdoc list \<Rightarrow> ts_element" where
  "createDocumentation target docs =
     (case docs of
        [] \<Rightarrow> target
      | d # _ \<Rightarrow>
          (case jsdoc_comment d of
             None \<Rightarrow> target
           | Some comment \<Rightarrow>
               if comment \<noteq> []
               then addSyntheticLeadingComment target MultiLineCommentTrivia
                      (documentationText comment) True
               else target))"

definition transformBlock :: "block \<Rightarrow> ts_block" where
  "transformBlock b = Block (map (\<lambda>st. ExpressionStatement (Identifier st)) b) True"

subsection \<open>Name\<close>

definition classNameToPropName :: "vue_model \<Rightarrow> error + ts_element" where
  "classNameToPropName vue =
     (case class_name (vue_declaration vue) of
        None \<Rightarrow> Inl NameMissing
      | Some n \<Rightarrow> Inr (PropertyAssignment ''name'' (StringLiteral n True) []))"

subsection \<open>Props\<close>

text \<open>The chain of lines 95 to 110: the base of a type that is not primitive.\<close>

definition baseType :: "ts_type \<Rightarrow> string \<Rightarrow> string" where
  "baseType ty actualType =
     (if type_callSignatures ty > 0 then ''Function''
      else if startsWith actualType ''Array<'' \<or> endsWith actualType ''[]'' then ''Array''
      else ''Object'')"

text \<open>
  The source file is the state: \<open>imports.ensure\<close> runs before
  \<open>getTypeNodeOrThrow()\<close>, so a failure returns the file with the import.
\<close>

definition classPropTypeToObjectPropType ::
  "source_file \<Rightarrow> prop_model \<Rightarrow> source_file \<times> (error + ts_element)" where
  "classPropTypeToObjectPropType src prop =
     (let ty = pd_type (prop_declaration prop) in
      if isString ty then
        (src, Inr (PropertyAssignment ''type'' (Identifier ''String'') []))
      else if isNumber ty then
        (src, Inr (PropertyAssignment ''type'' (Identifier ''Number'') []))
      else if isBoolean ty then
        (src, Inr (PropertyAssignment ''type'' (Identifier ''Boolean'') []))
      else
        (let src' = ensure src ''vue'' [''PropType''] in
         case pd_typeNode (prop_declaration prop) of
           None \<Rightarrow> (src', Inl TypeNodeMissing)
         | Some actualType \<Rightarrow>
             (src', Inr (PropertyAssignment ''type''
                (Identifier (baseType ty actualType @ '' as PropType<'' @ actualType @ ''>''))
                []))))"

definition classPropOptionsToObjectPropOptions :: "prop_model \<Rightarrow> ts_element list" where
  "classPropOptionsToObjectPropOptions prop =
     (case prop_default prop of
        Some d \<Rightarrow> [PropertyAssignment ''default'' (Identifier (pa_initializer d)) []]
      | None \<Rightarrow>
          (case prop_required prop of
             Some r \<Rightarrow> [CompilerNode r []]
           | None \<Rightarrow> [PropertyAssignment ''required'' FalseLiteral []]))"

definition classPropToObjectProp ::
  "source_file \<Rightarrow> prop_model \<Rightarrow> source_file \<times> (error + ts_element)" where
  "classPropToObjectProp src prop =
     (case classPropTypeToObjectPropType src prop of
        (src', Inl e) \<Rightarrow> (src', Inl e)
      | (src', Inr ty) \<Rightarrow>
          (src', Inr (createDocumentation
             (PropertyAssignment (pd_name (prop_declaration prop))
                (ObjectLiteralExpression (ty # classPropOptionsToObjectPropOptions prop) True)
                [])
             (pd_jsDocs (prop_declaration prop)))))"

text \<open>\<open>vue.props.map(prop => classPropToObjectProp(source, prop))\<close>, left to right.\<close>

fun mapProps :: "source_file \<Rightarrow> prop_model list \<Rightarrow> source_file \<times> (error + ts_element list)" where
  "mapProps src [] = (src, Inr [])"
| "mapProps src (p # ps) =
     (case classPropToObjectProp src p of
        (src', Inl e) \<Rightarrow> (src', Inl e)
      | (src', Inr x) \<Rightarrow>
          (case mapProps src' ps of
             (src'', Inl e) \<Rightarrow> (src'', Inl e)
           | (src'', Inr xs) \<Rightarrow> (src'', Inr (x # xs))))"

definition classPropsToObjectProps ::
  "source_file \<Rightarrow> vue_model \<Rightarrow> source_file \<times> (error + ts_element)" where
  "classPropsToObjectProps src vue =
     (case mapProps src (vue_props vue) of
        (src', Inl e) \<Rightarrow> (src', Inl e)
      | (src', Inr xs) \<Rightarrow>
          (src', Inr (PropertyAssignment ''props'' (ObjectLiteralExpression xs True) [])))"

subsection \<open>Data\<close>

text \<open>The body of the loop over \<open>vue.data\<close>: the entry pushed for one declaration.\<close>

definition dataProperty :: "property_declaration \<Rightarrow> error + ts_element" where
  "dataProperty declaration =
     (case pd_initializer declaration of
        None \<Rightarrow> Inl InitializerMissing
      | Some v \<Rightarrow>
          Inr (createDocumentation
            (PropertyAssignment (pd_name declaration)
               (case pd_typeNode declaration of
                  None \<Rightarrow> Identifier v
                | Some t \<Rightarrow> Identifier (v @ '' as '' @ t))
               [])
            (pd_jsDocs declaration)))"

text \<open>The loop, with \<open>properties\<close> as the accumulator.\<close>

fun dataProperties ::
  "property_declaration list \<Rightarrow> ts_element list \<Rightarrow> error + ts_element list" where
  "dataProperties [] properties = Inr properties"
| "dataProperties (d # ds) properties =
     (case dataProperty d of
        Inl e \<Rightarrow> Inl e
      | Inr p \<Rightarrow> dataProperties ds (properties @ [p]))"

definition classDataToObjectData :: "vue_model \<Rightarrow> error + ts_element" where
  "classDataToObjectData vue =
     (case dataProperties (vue_data vue) [] of
        Inl e \<Rightarrow> Inl e
      | Inr properties \<Rightarrow>
          Inr (MethodDeclaration ''data'' [] None
            (Block [ReturnStatement (ObjectLiteralExpression properties True)] True) []))"

subsection \<open>Computed\<close>

text \<open>The console is the state: a line is logged before \<open>getBodyOrThrow()\<close> can throw.\<close>

definition classComputedGetterToObjectComputedGetter ::
  "string list \<Rightarrow> string \<Rightarrow> get_accessor \<Rightarrow> string list \<times> (error + ts_element)" where
  "classComputedGetterToObjectComputedGetter log name g =
     (let (log', getterReturnType) =
        (case get_returnTypeNode g of
           Some t \<Rightarrow> (log, CompilerTypeNode t)
         | None \<Rightarrow>
             (log @ [''Computed getter '' @ left_corner @ name @ right_corner @
                     '' will require a manual return type.''],
              KeywordTypeNode AnyKeyword))
      in case get_body g of
           None \<Rightarrow> (log', Inl BodyMissing)
         | Some b \<Rightarrow>
             (log', Inr (MethodDeclaration name [] (Some getterReturnType)
                           (transformBlock b) [])))"

definition classComputedPropertyToObjectComputedProperty ::
  "string list \<Rightarrow> string \<Rightarrow> get_accessor \<Rightarrow> set_accessor \<Rightarrow>
     string list \<times> (error + ts_element)" where
  "classComputedPropertyToObjectComputedProperty log name g st =
     (case set_parameters st of
        [] \<Rightarrow> (log, Inl SetterParameterMissing)
      | setParameter # _ \<Rightarrow>
          (case set_body st of
             None \<Rightarrow> (log, Inl BodyMissing)
           | Some sb \<Rightarrow>
               (let setterDeclaration =
                      MethodDeclaration ''set'' [setParameter] None (transformBlock sb) [];
                    (log', getterReturnType) =
                      (case param_typeNode setParameter of
                         Some t \<Rightarrow> (log, CompilerTypeNode t)
                       | None \<Rightarrow>
                           (log @ [''Computed getter for '' @ left_corner @ name @
                                   right_corner @ '' will require a manual return type.''],
                            KeywordTypeNode AnyKeyword))
                in case get_body g of
                     None \<Rightarrow> (log', Inl BodyMissing)
                   | Some gb \<Rightarrow>
                       (log', Inr (PropertyAssignment name
                          (ObjectLiteralExpression
                             [MethodDeclaration ''get'' [] (Some getterReturnType)
                                (transformBlock gb) [],
                              setterDeclaration]
                             True)
                          [])))))"

text \<open>The loop over \<open>Object.entries(vue.computed)\<close>, with \<open>properties\<close> as the accumulator.\<close>

fun computedProperties ::
  "string list \<Rightarrow> (string \<times> computed_pair) list \<Rightarrow> ts_element list \<Rightarrow>
     string list \<times> (error + ts_element list)" where
  "computedProperties log [] properties = (log, Inr properties)"
| "computedProperties log ((name, pair) # rest) properties =
     (case getter pair of
        Some g \<Rightarrow>
          (case setter pair of
             Some st \<Rightarrow>
               (case classComputedPropertyToObjectComputedProperty log name g st of
                  (log', Inl e) \<Rightarrow> (log', Inl e)
                | (log', Inr p) \<Rightarrow> computedProperties log' rest (properties @ [p]))
           | None \<Rightarrow>
               (case classComputedGetterToObjectComputedGetter log name g of
                  (log', Inl e) \<Rightarrow> (log', Inl e)
                | (log', Inr p) \<Rightarrow> computedProperties log' rest (properties @ [p])))
      | None \<Rightarrow>
          (case setter pair of
             Some st \<Rightarrow> (log, Inl SetterWithoutGetter)
           | None \<Rightarrow> computedProperties log rest properties))"

definition classComputedToObjectComputed ::
  "string list \<Rightarrow> vue_model \<Rightarrow> string list \<times> (error + ts_element)" where
  "classComputedToObjectComputed log vue =
     (case computedProperties log (vue_computed vue) [] of
        (log', Inl e) \<Rightarrow> (log', Inl e)
      | (log', Inr properties) \<Rightarrow>
          (log', Inr (PropertyAssignment ''computed''
                        (ObjectLiteralExpression properties True) [])))"

subsection \<open>Assembly\<close>

text \<open>
  The three optional entries, each run only when its part of the model is not empty;
  they return the world as they leave it, also when one of them throws.
\<close>

definition propsEntry :: "world \<Rightarrow> vue_model \<Rightarrow> world \<times> (error + ts_element list)" where
  "propsEntry w vue =
     (if length (vue_props vue) > 0 then
        (case classPropsToObjectProps (source w) vue of
           (src', Inl e) \<Rightarrow> (w\<lparr>source := src'\<rparr>, Inl e)
         | (src', Inr p) \<Rightarrow> (w\<lparr>source := src'\<rparr>, Inr [p]))
      else (w, Inr []))"

definition dataEntry :: "world \<Rightarrow> vue_model \<Rightarrow> world \<times> (error + ts_element list)" where
  "dataEntry w vue =
     (if length (vue_data vue) > 0 then
        (case classDataToObjectData vue of
           Inl e \<Rightarrow> (w, Inl e)
         | Inr d \<Rightarrow> (w, Inr [d]))
      else (w, Inr []))"

definition computedEntry :: "world \<Rightarrow> vue_model \<Rightarrow> world \<times> (error + ts_element list)" where
  "computedEntry w vue =
     (if length (vue_computed vue) > 0 then
        (case classComputedToObjectComputed (console w) vue of
           (log', Inl e) \<Rightarrow> (w\<lparr>console := log'\<rparr>, Inl e)
         | (log', Inr c) \<Rightarrow> (w\<lparr>console := log'\<rparr>, Inr [c]))
      else (w, Inr []))"

text \<open>Lines 398 to 417: the entries of the object literal, in the order they are pushed.\<close>

definition componentProperties :: "world \<Rightarrow> vue_model \<Rightarrow> world \<times> (error + ts_element list)" where
  "componentProperties w vue =
     (case classNameToPropName vue of
        Inl e \<Rightarrow> (w, Inl e)
      | Inr n \<Rightarrow>
          (let properties = [n] @ map (\<lambda>p. CompilerNode p []) (vue_decorator_properties vue) in
           case propsEntry w vue of
             (w1, Inl e) \<Rightarrow> (w1, Inl e)
           | (w1, Inr ps) \<Rightarrow>
               (case dataEntry w1 vue of
                  (w2, Inl e) \<Rightarrow> (w2, Inl e)
                | (w2, Inr ds) \<Rightarrow>
                    (case computedEntry w2 vue of
                       (w3, Inl e) \<Rightarrow> (w3, Inl e)
                     | (w3, Inr cs) \<Rightarrow> (w3, Inr (properties @ ps @ ds @ cs))))))"

text \<open>
  Lines 426 to 447. \<open>remove()\<close> takes the declaration out of the statements (nodes are
  compared by their content here, so of two equal declarations the first one goes),
  \<open>addExportAssignment\<close> appends the export, \<open>formatText()\<close> runs once. The leading trivia
  writes the documentation when the string is truthy. The export holds the node itself
  where the code passes \<open>printNode(component)\<close>, the text that the printer of ts-morph
  renders from it.
\<close>

definition replaceDeclaration :: "source_file \<Rightarrow> vue_model \<Rightarrow> ts_expression \<Rightarrow> source_file" where
  "replaceDeclaration src vue component =
     (let documentation =
            (case class_jsDocs (vue_declaration vue) of
               [] \<Rightarrow> None
             | d # _ \<Rightarrow> Some (jsdoc_fullText d));
          trivia = (case documentation of
                      None \<Rightarrow> []
                    | Some t \<Rightarrow> if t \<noteq> [] then [t] else [])
      in src\<lparr>file_statements :=
               remove1 (ClassDeclaration (vue_declaration vue)) (file_statements src) @
               [ExportAssignment component False trivia],
             file_formats := Suc (file_formats src)\<rparr>)"

text \<open>
  \<open>classToObject\<close>. The extraction collaborator \<open>vue_class.extract\<close> is not among the
  sources and is a parameter; it reads the file and returns the model or nothing.
\<close>

definition classToObject ::
  "(source_file \<Rightarrow> vue_model option) \<Rightarrow> world \<Rightarrow> world \<times> (error + unit)" where
  "classToObject extract w =
     (case extract (source w) of
        None \<Rightarrow> (w, Inr ())
      | Some vue \<Rightarrow>
          (case componentProperties w vue of
             (w', Inl e) \<Rightarrow> (w', Inl e)
           | (w', Inr properties) \<Rightarrow>
               (let component = CallExpression (Identifier ''Vue.extend'')
                                  [ObjectLiteralExpression properties True]
                in (w'\<lparr>source := replaceDeclaration (source w') vue component\<rparr>, Inr ()))))"

subsection \<open>Predicates and inputs used in the statements\<close>

definition primitive :: "ts_type \<Rightarrow> bool" where
  "primitive ty = (isString ty \<or> isNumber ty \<or> isBoolean ty)"

definition empty_file :: source_file where
  "empty_file = \<lparr>file_imports = [], file_statements = [], file_formats = 0\<rparr>"

text \<open>A prop \<open>@Prop() user\<close> of an object type, without a type annotation.\<close>

definition untyped_prop :: prop_model where
  "untyped_prop =
     \<lparr>prop_declaration =
        \<lparr>pd_name = ''user'',
         pd_type = \<lparr>type_kind = OtherType, type_callSignatures = 0\<rparr>,
         pd_typeNode = None, pd_initializer = None, pd_jsDocs = []\<rparr>,
      prop_default = None, prop_required = None\<rparr>"

definition plain_file :: world where
  "plain_file =
     \<lparr>source = \<lparr>file_imports = [(''vue'', ''Vue'')],
                file_statements = [OtherStatement ''export const answer = 42''],
                file_formats = 0\<rparr>,
      console = []\<rparr>"

definition entry_count :: "string \<Rightarrow> ts_element list \<Rightarrow> nat" where
  "entry_count n es = length (filter (\<lambda>e. element_name e = n) es)"

definition required_true :: property_assignment where
  "required_true = \<lparr>pa_name = ''required'', pa_initializer = ''true''\<rparr>"

definition default_42 :: property_assignment where
  "default_42 = \<lparr>pa_name = ''default'', pa_initializer = ''42''\<rparr>"

definition number_declaration :: property_declaration where
  "number_declaration =
     \<lparr>pd_name = ''size'',
      pd_type = \<lparr>type_kind = NumberType, type_callSignatures = 0\<rparr>,
      pd_typeNode = Some ''number'', pd_initializer = None, pd_jsDocs = []\<rparr>"

definition prop_with_both :: prop_model where
  "prop_with_both =
     \<lparr>prop_declaration = number_declaration,
      prop_default = Some default_42, prop_required = Some required_true\<rparr>"

definition prop_with_required :: prop_model where
  "prop_with_required =
     \<lparr>prop_declaration = number_declaration,
      prop_default = None, prop_required = Some required_true\<rparr>"

definition prop_with_neither :: prop_model where
  "prop_with_neither =
     \<lparr>prop_declaration = number_declaration,
      prop_default = None, prop_required = None\<rparr>"

definition string_prop :: prop_model where
  "string_prop =
     \<lparr>prop_declaration =
        \<lparr>pd_name = ''title'',
         pd_type = \<lparr>type_kind = StringType, type_callSignatures = 0\<rparr>,
         pd_typeNode = Some ''string'', pd_initializer = None, pd_jsDocs = []\<rparr>,
      prop_default = None, prop_required = None\<rparr>"

definition boolean_prop :: prop_model where
  "boolean_prop =
     \<lparr>prop_declaration =
        \<lparr>pd_name = ''open'',
         pd_type = \<lparr>type_kind = BooleanType, type_callSignatures = 0\<rparr>,
         pd_typeNode = None, pd_initializer = None, pd_jsDocs = []\<rparr>,
      prop_default = None, prop_required = None\<rparr>"

definition interface_prop :: prop_model where
  "interface_prop =
     \<lparr>prop_declaration =
        \<lparr>pd_name = ''user'',
         pd_type = \<lparr>type_kind = OtherType, type_callSignatures = 0\<rparr>,
         pd_typeNode = Some ''MyInterface'', pd_initializer = None, pd_jsDocs = []\<rparr>,
      prop_default = None, prop_required = None\<rparr>"

definition array_prop :: prop_model where
  "array_prop =
     \<lparr>prop_declaration =
        \<lparr>pd_name = ''tags'',
         pd_type = \<lparr>type_kind = OtherType, type_callSignatures = 0\<rparr>,
         pd_typeNode = Some ''string[]'', pd_initializer = None, pd_jsDocs = []\<rparr>,
      prop_default = None, prop_required = None\<rparr>"

text \<open>A prop \<open>@Prop() load!: () => string[]\<close>: a function type whose text ends with \<open>[]\<close>.\<close>

definition callback_prop :: prop_model where
  "callback_prop =
     \<lparr>prop_declaration =
        \<lparr>pd_name = ''load'',
         pd_type = \<lparr>type_kind = OtherType, type_callSignatures = 1\<rparr>,
         pd_typeNode = Some ''() => string[]'', pd_initializer = None, pd_jsDocs = []\<rparr>,
      prop_default = None, prop_required = None\<rparr>"

definition two_object_props :: vue_model where
  "two_object_props =
     \<lparr>vue_declaration = \<lparr>class_name = Some ''Card'', class_jsDocs = []\<rparr>,
      vue_decorator_properties = [],
      vue_props = [interface_prop, array_prop],
      vue_data = [],
      vue_computed = []\<rparr>"

fun element_value :: "ts_element \<Rightarrow> ts_expression option" where
  "element_value (PropertyAssignment n e cs) = Some e"
| "element_value (MethodDeclaration n ps t b cs) = None"
| "element_value (CompilerNode p cs) = None"

definition card_target :: ts_element where
  "card_target = PropertyAssignment ''title'' (Identifier ''String'') []"

definition two_line_doc :: jsdoc where
  "two_line_doc =
     \<lparr>jsdoc_comment = Some (''The title.'' @ [newline] @ ''Shown on top.''),
      jsdoc_fullText = ''/** The title. Shown on top. */''\<rparr>"

definition empty_doc :: jsdoc where
  "empty_doc = \<lparr>jsdoc_comment = None, jsdoc_fullText = ''/** */''\<rparr>"

definition count_field :: property_declaration where
  "count_field =
     \<lparr>pd_name = ''count'',
      pd_type = \<lparr>type_kind = NumberType, type_callSignatures = 0\<rparr>,
      pd_typeNode = None, pd_initializer = Some ''1'', pd_jsDocs = []\<rparr>"

definition items_field :: property_declaration where
  "items_field =
     \<lparr>pd_name = ''items'',
      pd_type = \<lparr>type_kind = OtherType, type_callSignatures = 0\<rparr>,
      pd_typeNode = Some ''string[]'', pd_initializer = Some ''[]'', pd_jsDocs = []\<rparr>"

definition bare_field :: property_declaration where
  "bare_field =
     \<lparr>pd_name = ''label'',
      pd_type = \<lparr>type_kind = StringType, type_callSignatures = 0\<rparr>,
      pd_typeNode = Some ''string'', pd_initializer = None, pd_jsDocs = []\<rparr>"

definition model_with_data :: "property_declaration list \<Rightarrow> vue_model" where
  "model_with_data fs =
     \<lparr>vue_declaration = \<lparr>class_name = Some ''Card'', class_jsDocs = []\<rparr>,
      vue_decorator_properties = [], vue_props = [], vue_data = fs, vue_computed = []\<rparr>"

text \<open>What the claim says of a data field and its entry.\<close>

definition data_entry_of :: "property_declaration \<Rightarrow> ts_element \<Rightarrow> bool" where
  "data_entry_of d e =
     (case pd_initializer d of
        None \<Rightarrow> False
      | Some v \<Rightarrow>
          element_name e = pd_name d \<and>
          element_value e =
            Some (Identifier (case pd_typeNode d of None \<Rightarrow> v | Some t \<Rightarrow> v @ '' as '' @ t)))"

text \<open>The two diagnostics.\<close>

definition getter_diagnostic :: "string \<Rightarrow> string" where
  "getter_diagnostic name =
     ''Computed getter '' @ left_corner @ name @ right_corner @
     '' will require a manual return type.''"

definition pair_diagnostic :: "string \<Rightarrow> string" where
  "pair_diagnostic name =
     ''Computed getter for '' @ left_corner @ name @ right_corner @
     '' will require a manual return type.''"

definition untyped_getter :: get_accessor where
  "untyped_getter = \<lparr>get_returnTypeNode = None, get_body = Some [''return this.first'']\<rparr>"

definition typed_getter :: get_accessor where
  "typed_getter =
     \<lparr>get_returnTypeNode = Some ''number'', get_body = Some [''return this.count * 2'']\<rparr>"

text \<open>\<open>abstract get total(): number\<close>: a getter without a body.\<close>

definition abstract_getter :: get_accessor where
  "abstract_getter = \<lparr>get_returnTypeNode = Some ''number'', get_body = None\<rparr>"

definition string_setter :: set_accessor where
  "string_setter =
     \<lparr>set_parameters = [\<lparr>param_name = ''value'', param_typeNode = Some ''string''\<rparr>],
      set_body = Some [''this.first = value'']\<rparr>"

definition untyped_setter :: set_accessor where
  "untyped_setter =
     \<lparr>set_parameters = [\<lparr>param_name = ''value'', param_typeNode = None\<rparr>],
      set_body = Some [''this.first = value'']\<rparr>"

definition bare_setter :: set_accessor where
  "bare_setter = \<lparr>set_parameters = [], set_body = Some []\<rparr>"

definition model_with_computed :: "(string \<times> computed_pair) list \<Rightarrow> vue_model" where
  "model_with_computed cs =
     \<lparr>vue_declaration = \<lparr>class_name = Some ''Card'', class_jsDocs = []\<rparr>,
      vue_decorator_properties = [], vue_props = [], vue_data = [], vue_computed = cs\<rparr>"

text \<open>An entry of the computed mapping that the loop translates without throwing.\<close>

definition translatable :: "computed_pair \<Rightarrow> bool" where
  "translatable pair =
     (case getter pair of
        Some g \<Rightarrow>
          (case setter pair of
             Some st \<Rightarrow> set_parameters st \<noteq> [] \<and> set_body st \<noteq> None \<and> get_body g \<noteq> None
           | None \<Rightarrow> get_body g \<noteq> None)
      | None \<Rightarrow> setter pair = None)"

definition getter_only :: "get_accessor \<Rightarrow> computed_pair" where
  "getter_only g = \<lparr>getter = Some g, setter = None\<rparr>"

definition pair_of :: "get_accessor \<Rightarrow> set_accessor \<Rightarrow> computed_pair" where
  "pair_of g st = \<lparr>getter = Some g, setter = Some st\<rparr>"

definition setter_only :: "set_accessor \<Rightarrow> computed_pair" where
  "setter_only st = \<lparr>getter = None, setter = Some st\<rparr>"

text \<open>
  The component of the end-to-end example: a decorator option, a string prop with a
  default, a numeric data field and a getter with a return type.
\<close>

definition card_declaration :: class_declaration where
  "card_declaration =
     \<lparr>class_name = Some ''Card'',
      class_jsDocs = [\<lparr>jsdoc_comment = Some ''A card.'', jsdoc_fullText = ''/** A card. */''\<rparr>]\<rparr>"

definition card_model :: vue_model where
  "card_model =
     \<lparr>vue_declaration = card_declaration,
      vue_decorator_properties = [\<lparr>pa_name = ''components'', pa_initializer = ''{ Icon }''\<rparr>],
      vue_props = [string_prop\<lparr>prop_default := Some default_42\<rparr>],
      vue_data = [count_field],
      vue_computed = [(''double'', getter_only typed_getter)]\<rparr>"

definition card_file :: world where
  "card_file =
     \<lparr>source = \<lparr>file_imports = [(''vue'', ''Vue'')],
                file_statements = [OtherStatement ''const limit = 3'',
                                   ClassDeclaration card_declaration],
                file_formats = 0\<rparr>,
      console = []\<rparr>"

text \<open>A component with a prop of an interface type and a computed setter without getter.\<close>

definition broken_model :: vue_model where
  "broken_model =
     \<lparr>vue_declaration = card_declaration,
      vue_decorator_properties = [],
      vue_props = [interface_prop],
      vue_data = [],
      vue_computed = [(''first'', setter_only string_setter)]\<rparr>"

section \<open>Properties\<close>

subsection \<open>Props: when the translation fails\<close>

lemma classPropType_error:
  "snd (classPropTypeToObjectPropType src p) = Inl e \<Longrightarrow> e = TypeNodeMissing"
  by (auto simp: classPropTypeToObjectPropType_def Let_def split: if_splits option.splits)

lemma classPropType_fails_iff:
  "isl (snd (classPropTypeToObjectPropType src p)) \<longleftrightarrow>
     (\<not> primitive (pd_type (prop_declaration p)) \<and> pd_typeNode (prop_declaration p) = None)"
  by (auto simp: classPropTypeToObjectPropType_def primitive_def Let_def
      split: if_splits option.splits)

lemma classProp_fails_iff:
  "isl (snd (classPropToObjectProp src p)) \<longleftrightarrow>
     (\<not> primitive (pd_type (prop_declaration p)) \<and> pd_typeNode (prop_declaration p) = None)"
  using classPropType_fails_iff [of src p]
  by (auto simp: classPropToObjectProp_def split: prod.splits sum.splits)

lemma mapProps_fails_iff:
  "isl (snd (mapProps src ps)) \<longleftrightarrow>
     (\<exists>p\<in>set ps. \<not> primitive (pd_type (prop_declaration p)) \<and>
                  pd_typeNode (prop_declaration p) = None)"
proof (induction ps arbitrary: src)
  case Nil
  show ?case by simp
next
  case (Cons p ps)
  obtain src' r where step: "classPropToObjectProp src p = (src', r)"
    by (cases "classPropToObjectProp src p")
  show ?case
  proof (cases r)
    case (Inl e)
    with step classProp_fails_iff [of src p] show ?thesis by simp
  next
    case (Inr x)
    obtain src'' r' where rest: "mapProps src' ps = (src'', r')"
      by (cases "mapProps src' ps")
    from Inr step classProp_fails_iff [of src p]
    have ok: "\<not> (\<not> primitive (pd_type (prop_declaration p)) \<and>
                 pd_typeNode (prop_declaration p) = None)"
      by simp
    from Inr step rest have "isl (snd (mapProps src (p # ps))) = isl r'"
      by (cases r') simp_all
    also have "isl r' = isl (snd (mapProps src' ps))"
      using rest by simp
    finally show ?thesis
      using Cons.IH [of src'] ok by auto
  qed
qed

lemma mapProps_error:
  "snd (mapProps src ps) = Inl e \<Longrightarrow> e = TypeNodeMissing"
proof (induction ps arbitrary: src)
  case Nil
  then show ?case by simp
next
  case (Cons p ps)
  obtain src' r where step: "classPropToObjectProp src p = (src', r)"
    by (cases "classPropToObjectProp src p")
  show ?case
  proof (cases r)
    case (Inl e')
    with step Cons.prems have "snd (classPropTypeToObjectPropType src p) = Inl e"
      by (auto simp: classPropToObjectProp_def split: prod.splits sum.splits)
    then show ?thesis by (rule classPropType_error)
  next
    case (Inr x)
    obtain src'' r' where rest: "mapProps src' ps = (src'', r')"
      by (cases "mapProps src' ps")
    with Inr step Cons.prems have "snd (mapProps src' ps) = Inl e"
      by (cases r') simp_all
    then show ?thesis by (rule Cons.IH)
  qed
qed

lemma classProps_fails_iff:
  "isl (snd (classPropsToObjectProps src vue)) \<longleftrightarrow>
     (\<exists>p\<in>set (vue_props vue). \<not> primitive (pd_type (prop_declaration p)) \<and>
                              pd_typeNode (prop_declaration p) = None)"
  using mapProps_fails_iff [of src "vue_props vue"]
  by (auto simp: classPropsToObjectProps_def split: prod.splits sum.splits)

lemma classProps_error:
  "snd (classPropsToObjectProps src vue) = Inl e \<Longrightarrow> e = TypeNodeMissing"
  using mapProps_error [of src "vue_props vue" e]
  by (auto simp: classPropsToObjectProps_def split: prod.splits sum.splits)

text \<open>
  C10. A prop whose type is not string, number or boolean and whose declaration has no
  type annotation makes the props translator throw: \<open>getTypeNodeOrThrow()\<close> fails for
  the prop itself, for its entry, and for the whole \<open>props\<close> entry of a model that
  holds it.
\<close>

theorem untyped_prop_fails:
  assumes "\<not> isString (pd_type (prop_declaration p))"
    and "\<not> isNumber (pd_type (prop_declaration p))"
    and "\<not> isBoolean (pd_type (prop_declaration p))"
    and "pd_typeNode (prop_declaration p) = None"
  shows "snd (classPropTypeToObjectPropType src p) = Inl TypeNodeMissing \<and>
         snd (classPropToObjectProp src p) = Inl TypeNodeMissing \<and>
         (p \<in> set (vue_props vue) \<longrightarrow>
            snd (classPropsToObjectProps src vue) = Inl TypeNodeMissing)"
proof -
  have one: "snd (classPropTypeToObjectPropType src p) = Inl TypeNodeMissing"
    using assms by (simp add: classPropTypeToObjectPropType_def Let_def)
  then have two: "snd (classPropToObjectProp src p) = Inl TypeNodeMissing"
    by (auto simp: classPropToObjectProp_def split: prod.splits sum.splits)
  have three: "snd (classPropsToObjectProps src vue) = Inl TypeNodeMissing"
    if "p \<in> set (vue_props vue)"
  proof -
    from that assms have "isl (snd (classPropsToObjectProps src vue))"
      unfolding classProps_fails_iff primitive_def by blast
    then obtain e where "snd (classPropsToObjectProps src vue) = Inl e"
      by (cases "snd (classPropsToObjectProps src vue)") simp_all
    with classProps_error [of src vue e] show ?thesis by simp
  qed
  from one two three show ?thesis by blast
qed

theorem untyped_prop_fails_witness:
  "\<not> isString (pd_type (prop_declaration untyped_prop)) \<and>
   \<not> isNumber (pd_type (prop_declaration untyped_prop)) \<and>
   \<not> isBoolean (pd_type (prop_declaration untyped_prop)) \<and>
   pd_typeNode (prop_declaration untyped_prop) = None \<and>
   untyped_prop \<in> set [untyped_prop] \<and>
   snd (classPropTypeToObjectPropType empty_file untyped_prop) = Inl TypeNodeMissing \<and>
   snd (classPropsToObjectProps empty_file
     \<lparr>vue_declaration = \<lparr>class_name = Some ''Card'', class_jsDocs = []\<rparr>,
      vue_decorator_properties = [], vue_props = [untyped_prop], vue_data = [],
      vue_computed = []\<rparr>) = Inl TypeNodeMissing"
  using untyped_prop_fails [of untyped_prop empty_file
     "\<lparr>vue_declaration = \<lparr>class_name = Some ''Card'', class_jsDocs = []\<rparr>,
      vue_decorator_properties = [], vue_props = [untyped_prop], vue_data = [],
      vue_computed = []\<rparr>"]
  by (simp add: untyped_prop_def isString_def isNumber_def isBoolean_def)

subsection \<open>Nothing to translate\<close>

text \<open>
  C9. When \<open>vue_class.extract\<close> finds no component in the file, \<open>classToObject\<close> returns
  at once: the file (imports, statements, formatting) and the console are as before.
\<close>

theorem classToObject_noop:
  "extract (source w) = None \<Longrightarrow> classToObject extract w = (w, Inr ())"
  by (simp add: classToObject_def)

theorem classToObject_noop_witness:
  "(\<lambda>src. None :: vue_model option) (source plain_file) = None \<and>
   classToObject (\<lambda>src. None) plain_file = (plain_file, Inr ())"
  using classToObject_noop [of "\<lambda>src. None" plain_file]
  by simp

subsection \<open>Props: default and required\<close>

lemma createDocumentation_name [simp]:
  "element_name (createDocumentation t docs) = element_name t"
  by (cases t) (auto simp: createDocumentation_def split: list.splits option.splits)

lemma createDocumentation_cases:
  "createDocumentation (PropertyAssignment n e cs) docs = PropertyAssignment n e cs \<or>
   (\<exists>c. createDocumentation (PropertyAssignment n e cs) docs = PropertyAssignment n e (cs @ [c]))"
  by (auto simp: createDocumentation_def split: list.splits option.splits)

lemma classPropType_name:
  "classPropTypeToObjectPropType src p = (src', Inr ty) \<Longrightarrow> element_name ty = ''type''"
  by (auto simp: classPropTypeToObjectPropType_def Let_def split: if_splits option.splits)

text \<open>
  C2. The options of a prop are exactly one entry, named \<open>default\<close> or \<open>required\<close>:
  with a default, \<open>default\<close> carrying the text of its initializer (a \<open>required\<close>
  assignment is dropped); else the \<open>required\<close> assignment of the decorator as it is;
  else \<open>required: false\<close>. The emitted prop object holds the \<open>type\<close> entry and that
  one entry. The extraction hands over, as \<open>required\<close>, the assignment of that name.
\<close>

theorem prop_options_exactly_one:
  assumes "\<forall>r. prop_required prop = Some r \<longrightarrow> pa_name r = ''required''"
  shows "\<exists>e. classPropOptionsToObjectPropOptions prop = [e] \<and>
           entry_count ''default'' [e] + entry_count ''required'' [e] = 1 \<and>
           (\<forall>d. prop_default prop = Some d \<longrightarrow>
              e = PropertyAssignment ''default'' (Identifier (pa_initializer d)) []) \<and>
           (\<forall>r. prop_default prop = None \<and> prop_required prop = Some r \<longrightarrow>
              e = CompilerNode r []) \<and>
           (prop_default prop = None \<and> prop_required prop = None \<longrightarrow>
              e = PropertyAssignment ''required'' FalseLiteral []) \<and>
           (\<forall>src src' x. classPropToObjectProp src prop = (src', Inr x) \<longrightarrow>
              (\<exists>ty cs. x = PropertyAssignment (pd_name (prop_declaration prop))
                              (ObjectLiteralExpression [ty, e] True) cs \<and>
                 element_name ty = ''type'' \<and>
                 entry_count ''default'' [ty, e] + entry_count ''required'' [ty, e] = 1))"
proof -
  have "\<exists>e. classPropOptionsToObjectPropOptions prop = [e]"
    by (simp add: classPropOptionsToObjectPropOptions_def split: option.splits)
  then obtain e where e: "classPropOptionsToObjectPropOptions prop = [e]" ..
  have name: "(element_name e = ''default'' \<and> element_name e \<noteq> ''required'') \<or>
              (element_name e = ''required'' \<and> element_name e \<noteq> ''default'')"
    using e assms
    by (auto simp: classPropOptionsToObjectPropOptions_def split: option.splits)
  have d: "\<forall>d. prop_default prop = Some d \<longrightarrow>
              e = PropertyAssignment ''default'' (Identifier (pa_initializer d)) []"
    using e by (auto simp: classPropOptionsToObjectPropOptions_def)
  have r: "\<forall>r. prop_default prop = None \<and> prop_required prop = Some r \<longrightarrow>
              e = CompilerNode r []"
    using e by (auto simp: classPropOptionsToObjectPropOptions_def)
  have n: "prop_default prop = None \<and> prop_required prop = None \<longrightarrow>
              e = PropertyAssignment ''required'' FalseLiteral []"
    using e by (auto simp: classPropOptionsToObjectPropOptions_def)
  have obj: "\<exists>ty cs. x = PropertyAssignment (pd_name (prop_declaration prop))
                              (ObjectLiteralExpression [ty, e] True) cs \<and>
                 element_name ty = ''type'' \<and>
                 entry_count ''default'' [ty, e] + entry_count ''required'' [ty, e] = 1"
    if run: "classPropToObjectProp src prop = (src', Inr x)" for src src' x
  proof -
    from run obtain ty where ty: "classPropTypeToObjectPropType src prop = (src', Inr ty)"
      and x: "x = createDocumentation
                    (PropertyAssignment (pd_name (prop_declaration prop))
                       (ObjectLiteralExpression [ty, e] True) [])
                    (pd_jsDocs (prop_declaration prop))"
      by (auto simp: classPropToObjectProp_def e split: prod.splits sum.splits)
    from ty have tn: "element_name ty = ''type''" by (rule classPropType_name)
    from x createDocumentation_cases
    obtain cs where "x = PropertyAssignment (pd_name (prop_declaration prop))
                       (ObjectLiteralExpression [ty, e] True) cs"
      by metis
    moreover from tn name
    have "entry_count ''default'' [ty, e] + entry_count ''required'' [ty, e] = 1"
      by (auto simp: entry_count_def)
    ultimately show ?thesis using tn by blast
  qed
  from name have one: "entry_count ''default'' [e] + entry_count ''required'' [e] = 1"
    by (auto simp: entry_count_def)
  from e one d r n obj show ?thesis by blast
qed

lemmas example_defs =
  required_true_def default_42_def number_declaration_def prop_with_both_def
  prop_with_required_def prop_with_neither_def empty_file_def

theorem prop_options_exactly_one_witness:
  "prop_required prop_with_both = Some required_true \<and>
   pa_name required_true = ''required'' \<and>
   prop_default prop_with_both = Some default_42 \<and>
   classPropOptionsToObjectPropOptions prop_with_both =
     [PropertyAssignment ''default'' (Identifier ''42'') []] \<and>
   classPropToObjectProp empty_file prop_with_both =
     (empty_file, Inr (PropertyAssignment ''size''
        (ObjectLiteralExpression
           [PropertyAssignment ''type'' (Identifier ''Number'') [],
            PropertyAssignment ''default'' (Identifier ''42'') []] True) [])) \<and>
   prop_default prop_with_required = None \<and>
   prop_required prop_with_required = Some required_true \<and>
   classPropOptionsToObjectPropOptions prop_with_required = [CompilerNode required_true []] \<and>
   prop_default prop_with_neither = None \<and>
   prop_required prop_with_neither = None \<and>
   classPropOptionsToObjectPropOptions prop_with_neither =
     [PropertyAssignment ''required'' FalseLiteral []]"
  using prop_options_exactly_one [of prop_with_both]
    prop_options_exactly_one [of prop_with_required]
    prop_options_exactly_one [of prop_with_neither]
  by (simp add: example_defs classPropOptionsToObjectPropOptions_def
      classPropToObjectProp_def classPropTypeToObjectPropType_def createDocumentation_def
      isString_def isNumber_def isBoolean_def)

subsection \<open>Props: the type entry\<close>

lemma ensure_one:
  "ensure src m [n] =
     (if (m, n) \<in> set (file_imports src) then src
      else src\<lparr>file_imports := file_imports src @ [(m, n)]\<rparr>)"
  by simp

lemma ensure_idem: "ensure (ensure src m [n]) m [n] = ensure src m [n]"
  by simp

lemma ensure_member: "(m, n) \<in> set (file_imports (ensure src m [n]))"
  by simp

lemma ensure_count:
  assumes "count_list (file_imports src) (m, n) \<le> 1"
  shows "count_list (file_imports (ensure src m [n])) (m, n) = 1"
proof (cases "(m, n) \<in> set (file_imports src)")
  case True
  then have "count_list (file_imports src) (m, n) \<noteq> 0"
    by (simp add: count_list_0_iff)
  with assms True show ?thesis by simp
next
  case False
  then have "count_list (file_imports src) (m, n) = 0"
    by (simp add: count_list_0_iff)
  with False show ?thesis by simp
qed

lemma classPropType_state:
  "fst (classPropTypeToObjectPropType src p) =
     (if primitive (pd_type (prop_declaration p)) then src
      else ensure src ''vue'' [''PropType''])"
  by (auto simp: classPropTypeToObjectPropType_def primitive_def Let_def split: option.splits)

lemma classProp_state:
  "fst (classPropToObjectProp src p) =
     (if primitive (pd_type (prop_declaration p)) then src
      else ensure src ''vue'' [''PropType''])"
  using classPropType_state [of src p]
  by (auto simp: classPropToObjectProp_def split: prod.splits sum.splits)

lemma mapProps_state:
  "fst (mapProps src ps) =
     (if \<forall>p\<in>set ps. primitive (pd_type (prop_declaration p)) then src
      else ensure src ''vue'' [''PropType''])"
proof (induction ps arbitrary: src)
  case Nil
  show ?case by simp
next
  case (Cons p ps)
  obtain src' r where step: "classPropToObjectProp src p = (src', r)"
    by (cases "classPropToObjectProp src p")
  with classProp_state [of src p]
  have src': "src' = (if primitive (pd_type (prop_declaration p)) then src
                      else ensure src ''vue'' [''PropType''])"
    by simp
  show ?case
  proof (cases r)
    case (Inl e)
    with step classProp_fails_iff [of src p]
    have "\<not> primitive (pd_type (prop_declaration p))" by simp
    with Inl step src' show ?thesis by simp
  next
    case (Inr x)
    obtain src'' r' where rest: "mapProps src' ps = (src'', r')"
      by (cases "mapProps src' ps")
    with Inr step have "fst (mapProps src (p # ps)) = fst (mapProps src' ps)"
      by (cases r') simp_all
    also have "\<dots> = (if \<forall>p\<in>set ps. primitive (pd_type (prop_declaration p)) then src'
                      else ensure src' ''vue'' [''PropType''])"
      by (rule Cons.IH)
    finally show ?thesis
      using src' ensure_idem [of src "''vue''" "''PropType''"] by auto
  qed
qed

lemma classProps_state:
  "fst (classPropsToObjectProps src vue) =
     (if \<forall>p\<in>set (vue_props vue). primitive (pd_type (prop_declaration p)) then src
      else ensure src ''vue'' [''PropType''])"
  using mapProps_state [of src "vue_props vue"]
  by (auto simp: classPropsToObjectProps_def split: prod.splits sum.splits)

lemmas prop_defs = string_prop_def boolean_prop_def interface_prop_def array_prop_def
  callback_prop_def two_object_props_def

lemma baseType_cases:
  "(baseType ty T = ''Function'' \<longleftrightarrow> type_callSignatures ty > 0) \<and>
   (baseType ty T = ''Array'' \<longleftrightarrow>
      type_callSignatures ty = 0 \<and> (startsWith T ''Array<'' \<or> endsWith T ''[]'')) \<and>
   (baseType ty T = ''Object'' \<longleftrightarrow>
      type_callSignatures ty = 0 \<and> \<not> startsWith T ''Array<'' \<and> \<not> endsWith T ''[]'')"
  by (simp add: baseType_def)

text \<open>
  C1, as amended. A prop of type string, number or boolean gets the entry \<open>type: String\<close>,
  \<open>type: Number\<close> or \<open>type: Boolean\<close>, and the file is not touched. Any other prop
  with a type annotation \<open>T\<close> gets \<open>type: Base as PropType<T>\<close>, where the base is
  \<open>Function\<close> iff the type has a call signature, \<open>Array\<close> iff it has none and \<open>T\<close> starts
  with \<open>Array<\<close> or ends with \<open>[]\<close>, and \<open>Object\<close> otherwise; the named import
  \<open>PropType\<close> from \<open>vue\<close> is ensured, and a file that imported it at most once imports
  it exactly once after the props are translated, however many such props there are.
\<close>

theorem prop_type_entry:
  "(isString (pd_type (prop_declaration prop)) \<longrightarrow>
      classPropTypeToObjectPropType src prop =
        (src, Inr (PropertyAssignment ''type'' (Identifier ''String'') []))) \<and>
   (isNumber (pd_type (prop_declaration prop)) \<longrightarrow>
      classPropTypeToObjectPropType src prop =
        (src, Inr (PropertyAssignment ''type'' (Identifier ''Number'') []))) \<and>
   (isBoolean (pd_type (prop_declaration prop)) \<longrightarrow>
      classPropTypeToObjectPropType src prop =
        (src, Inr (PropertyAssignment ''type'' (Identifier ''Boolean'') []))) \<and>
   (\<forall>T. \<not> primitive (pd_type (prop_declaration prop)) \<and>
        pd_typeNode (prop_declaration prop) = Some T \<longrightarrow>
      (\<exists>base.
         classPropTypeToObjectPropType src prop =
           (ensure src ''vue'' [''PropType''],
            Inr (PropertyAssignment ''type''
                   (Identifier (base @ '' as PropType<'' @ T @ ''>'')) [])) \<and>
         (base = ''Function'' \<longleftrightarrow> type_callSignatures (pd_type (prop_declaration prop)) > 0) \<and>
         (base = ''Array'' \<longleftrightarrow>
            type_callSignatures (pd_type (prop_declaration prop)) = 0 \<and>
            (startsWith T ''Array<'' \<or> endsWith T ''[]'')) \<and>
         (base = ''Object'' \<longleftrightarrow>
            type_callSignatures (pd_type (prop_declaration prop)) = 0 \<and>
            \<not> startsWith T ''Array<'' \<and> \<not> endsWith T ''[]'') \<and>
         (''vue'', ''PropType'') \<in> set (file_imports (ensure src ''vue'' [''PropType''])))) \<and>
   (\<forall>vue. (\<exists>p\<in>set (vue_props vue). \<not> primitive (pd_type (prop_declaration p))) \<and>
          count_list (file_imports src) (''vue'', ''PropType'') \<le> 1 \<longrightarrow>
      count_list (file_imports (fst (classPropsToObjectProps src vue)))
        (''vue'', ''PropType'') = 1)"
proof (intro conjI allI impI)
  assume "isString (pd_type (prop_declaration prop))"
  then show "classPropTypeToObjectPropType src prop =
        (src, Inr (PropertyAssignment ''type'' (Identifier ''String'') []))"
    by (simp add: classPropTypeToObjectPropType_def)
next
  assume "isNumber (pd_type (prop_declaration prop))"
  then show "classPropTypeToObjectPropType src prop =
        (src, Inr (PropertyAssignment ''type'' (Identifier ''Number'') []))"
    by (simp add: classPropTypeToObjectPropType_def isString_def isNumber_def)
next
  assume "isBoolean (pd_type (prop_declaration prop))"
  then show "classPropTypeToObjectPropType src prop =
        (src, Inr (PropertyAssignment ''type'' (Identifier ''Boolean'') []))"
    by (simp add: classPropTypeToObjectPropType_def isString_def isNumber_def isBoolean_def)
next
  fix T
  let ?ty = "pd_type (prop_declaration prop)"
  assume "\<not> primitive ?ty \<and> pd_typeNode (prop_declaration prop) = Some T"
  then have run: "classPropTypeToObjectPropType src prop =
           (ensure src ''vue'' [''PropType''],
            Inr (PropertyAssignment ''type''
                   (Identifier (baseType ?ty T @ '' as PropType<'' @ T @ ''>'')) []))"
    by (simp add: classPropTypeToObjectPropType_def primitive_def Let_def)
  show "\<exists>base.
         classPropTypeToObjectPropType src prop =
           (ensure src ''vue'' [''PropType''],
            Inr (PropertyAssignment ''type''
                   (Identifier (base @ '' as PropType<'' @ T @ ''>'')) [])) \<and>
         (base = ''Function'' \<longleftrightarrow> type_callSignatures ?ty > 0) \<and>
         (base = ''Array'' \<longleftrightarrow>
            type_callSignatures ?ty = 0 \<and> (startsWith T ''Array<'' \<or> endsWith T ''[]'')) \<and>
         (base = ''Object'' \<longleftrightarrow>
            type_callSignatures ?ty = 0 \<and> \<not> startsWith T ''Array<'' \<and> \<not> endsWith T ''[]'') \<and>
         (''vue'', ''PropType'') \<in> set (file_imports (ensure src ''vue'' [''PropType'']))"
  proof (rule exI [of _ "baseType ?ty T"], intro conjI)
    show "classPropTypeToObjectPropType src prop =
           (ensure src ''vue'' [''PropType''],
            Inr (PropertyAssignment ''type''
                   (Identifier (baseType ?ty T @ '' as PropType<'' @ T @ ''>'')) []))"
      by (rule run)
    show "(''vue'', ''PropType'') \<in> set (file_imports (ensure src ''vue'' [''PropType'']))"
      by (rule ensure_member)
  qed (simp_all add: baseType_def)
next
  fix vue :: vue_model
  assume a: "(\<exists>p\<in>set (vue_props vue). \<not> primitive (pd_type (prop_declaration p))) \<and>
          count_list (file_imports src) (''vue'', ''PropType'') \<le> 1"
  then have "fst (classPropsToObjectProps src vue) = ensure src ''vue'' [''PropType'']"
    by (auto simp: classProps_state)
  with a ensure_count [of src "''vue''" "''PropType''"]
  show "count_list (file_imports (fst (classPropsToObjectProps src vue)))
        (''vue'', ''PropType'') = 1"
    by simp
qed

theorem prop_type_entry_witness:
  "isString (pd_type (prop_declaration string_prop)) \<and>
   classPropTypeToObjectPropType empty_file string_prop =
     (empty_file, Inr (PropertyAssignment ''type'' (Identifier ''String'') [])) \<and>
   isNumber (pd_type (prop_declaration prop_with_neither)) \<and>
   classPropTypeToObjectPropType empty_file prop_with_neither =
     (empty_file, Inr (PropertyAssignment ''type'' (Identifier ''Number'') [])) \<and>
   isBoolean (pd_type (prop_declaration boolean_prop)) \<and>
   classPropTypeToObjectPropType empty_file boolean_prop =
     (empty_file, Inr (PropertyAssignment ''type'' (Identifier ''Boolean'') [])) \<and>
   (\<not> primitive (pd_type (prop_declaration interface_prop)) \<and>
    pd_typeNode (prop_declaration interface_prop) = Some ''MyInterface'') \<and>
   classPropTypeToObjectPropType empty_file interface_prop =
     (empty_file\<lparr>file_imports := [(''vue'', ''PropType'')]\<rparr>,
      Inr (PropertyAssignment ''type'' (Identifier ''Object as PropType<MyInterface>'') [])) \<and>
   ((\<exists>p\<in>set (vue_props two_object_props). \<not> primitive (pd_type (prop_declaration p))) \<and>
    count_list (file_imports empty_file) (''vue'', ''PropType'') \<le> 1) \<and>
   count_list (file_imports (fst (classPropsToObjectProps empty_file two_object_props)))
     (''vue'', ''PropType'') = 1"
proof -
  note t1 = prop_type_entry [of string_prop empty_file]
  note t2 = prop_type_entry [of prop_with_neither empty_file]
  note t3 = prop_type_entry [of boolean_prop empty_file]
  note t4 = prop_type_entry [of interface_prop empty_file]
  have h1: "isString (pd_type (prop_declaration string_prop))"
    by (simp add: prop_defs isString_def)
  have h2: "isNumber (pd_type (prop_declaration prop_with_neither))"
    by (simp add: example_defs isNumber_def)
  have h3: "isBoolean (pd_type (prop_declaration boolean_prop))"
    by (simp add: prop_defs isBoolean_def)
  have h4: "\<not> primitive (pd_type (prop_declaration interface_prop)) \<and>
     pd_typeNode (prop_declaration interface_prop) = Some ''MyInterface''"
    by (simp add: prop_defs primitive_def isString_def isNumber_def isBoolean_def)
  have h5: "(\<exists>p\<in>set (vue_props two_object_props). \<not> primitive (pd_type (prop_declaration p))) \<and>
     count_list (file_imports empty_file) (''vue'', ''PropType'') \<le> 1"
    by (simp add: prop_defs empty_file_def primitive_def isString_def isNumber_def isBoolean_def)
  note c1 = t1 [THEN conjunct1, THEN mp, OF h1]
  note c2 = t2 [THEN conjunct2, THEN conjunct1, THEN mp, OF h2]
  note c3 = t3 [THEN conjunct2, THEN conjunct2, THEN conjunct1, THEN mp, OF h3]
  note e4 = t4 [THEN conjunct2, THEN conjunct2, THEN conjunct2, THEN conjunct1, THEN spec,
    THEN mp, OF h4]
  note c5 = t1 [THEN conjunct2, THEN conjunct2, THEN conjunct2, THEN conjunct2, THEN spec,
    THEN mp, OF h5]
  from e4 obtain base where
    r: "classPropTypeToObjectPropType empty_file interface_prop =
           (ensure empty_file ''vue'' [''PropType''],
            Inr (PropertyAssignment ''type''
                   (Identifier (base @ '' as PropType<'' @ ''MyInterface'' @ ''>'')) []))"
    and o: "base = ''Object'' \<longleftrightarrow>
            type_callSignatures (pd_type (prop_declaration interface_prop)) = 0 \<and>
            \<not> startsWith ''MyInterface'' ''Array<'' \<and> \<not> endsWith ''MyInterface'' ''[]''"
    by (elim exE conjE)
  from o have "base = ''Object''"
    by (simp add: prop_defs startsWith_def endsWith_def)
  with r have c4: "classPropTypeToObjectPropType empty_file interface_prop =
     (empty_file\<lparr>file_imports := [(''vue'', ''PropType'')]\<rparr>,
      Inr (PropertyAssignment ''type'' (Identifier ''Object as PropType<MyInterface>'') []))"
    by (simp add: empty_file_def)
  show ?thesis
    by (intro conjI h1 h2 h3 h4 h5 c1 c2 c3 c4 c5)
qed

text \<open>
  The claim as first stated, \<open>Array\<close> iff the text starts with \<open>Array<\<close> or ends with
  \<open>[]\<close>, fails for a function type that returns an array: the call signature is tested
  first.
\<close>

theorem prop_type_array_counterexample:
  "\<not> primitive (pd_type (prop_declaration callback_prop)) \<and>
   pd_typeNode (prop_declaration callback_prop) = Some ''() => string[]'' \<and>
   endsWith ''() => string[]'' ''[]'' \<and>
   classPropTypeToObjectPropType empty_file callback_prop =
     (empty_file\<lparr>file_imports := [(''vue'', ''PropType'')]\<rparr>,
      Inr (PropertyAssignment ''type''
             (Identifier ''Function as PropType<() => string[]>'') [])) \<and>
   snd (classPropTypeToObjectPropType empty_file callback_prop) \<noteq>
     Inr (PropertyAssignment ''type''
            (Identifier (''Array'' @ '' as PropType<'' @ ''() => string[]'' @ ''>'')) [])"
  by (simp add: prop_defs empty_file_def primitive_def isString_def isNumber_def isBoolean_def
      endsWith_def startsWith_def classPropTypeToObjectPropType_def baseType_def)

subsection \<open>Documentation\<close>

lemma split_on_not_Nil: "split_on sep s \<noteq> []"
  by (induction s) (auto split: list.splits)

lemma split_on_no_sep: "l \<in> set (split_on sep s) \<Longrightarrow> sep \<notin> set l"
proof (induction s arbitrary: l)
  case Nil
  then show ?case by simp
next
  case (Cons c cs)
  then show ?case
    by (cases "split_on sep cs") (auto split: if_splits)
qed

lemma split_on_line: "sep \<notin> set l \<Longrightarrow> split_on sep l = [l]"
  by (induction l) auto

lemma split_on_append:
  "sep \<notin> set l \<Longrightarrow> split_on sep (l @ sep # s) = l # split_on sep s"
  by (induction l) auto

lemma join_Cons: "ls \<noteq> [] \<Longrightarrow> join sep (l # ls) = l @ sep @ join sep ls"
  by (cases ls) simp_all

lemma join_snoc: "ls \<noteq> [] \<Longrightarrow> join sep (ls @ [l]) = join sep ls @ sep @ l"
proof (induction sep ls rule: join.induct)
  case (1 sep)
  then show ?case by simp
next
  case (2 sep x)
  show ?case by simp
next
  case (3 sep x y ls)
  then show ?case by simp
qed

lemma split_on_join:
  "ls \<noteq> [] \<Longrightarrow> \<forall>l\<in>set ls. sep \<notin> set l \<Longrightarrow> split_on sep (join [sep] ls) = ls"
proof (induction "[sep]" ls rule: join.induct)
  case 1
  then show ?case by simp
next
  case (2 l)
  then show ?case by (simp add: split_on_line)
next
  case (3 l l' ls)
  then show ?case by (simp add: split_on_append)
qed

lemma join_split_on: "join [sep] (split_on sep s) = s"
proof (induction s)
  case Nil
  show ?case by simp
next
  case (Cons c cs)
  show ?case
  proof (cases "c = sep")
    case True
    with Cons show ?thesis by (simp add: join_Cons split_on_not_Nil)
  next
    case False
    obtain l ls where sp: "split_on sep cs = l # ls"
      using split_on_not_Nil [of sep cs] by (cases "split_on sep cs") auto
    with Cons have "join [sep] (l # ls) = cs" by simp
    then have "join [sep] ((c # l) # ls) = c # cs"
      by (cases ls) auto
    with False sp show ?thesis by simp
  qed
qed

lemma documentationText_join:
  "documentationText c =
     join [newline] (''*'' # map (\<lambda>line. '' * '' @ line) (split_on newline c) @ ['' ''])"
proof -
  let ?ls = "map (\<lambda>line. '' * '' @ line) (split_on newline c)"
  have ne: "?ls \<noteq> []" by (simp add: split_on_not_Nil)
  have "join [newline] (''*'' # ?ls @ ['' '']) = ''*'' @ [newline] @ join [newline] (?ls @ ['' ''])"
    using ne by (simp add: join_Cons)
  also have "join [newline] (?ls @ ['' '']) = join [newline] ?ls @ [newline] @ '' ''"
    using ne by (rule join_snoc)
  finally show ?thesis by (simp add: documentationText_def)
qed

lemma documentationText_lines:
  "split_on newline (documentationText c) =
     ''*'' # map (\<lambda>line. '' * '' @ line) (split_on newline c) @ ['' '']"
proof -
  have "\<forall>l\<in>set (''*'' # map (\<lambda>line. '' * '' @ line) (split_on newline c) @ ['' '']).
          newline \<notin> set l"
    by (auto simp: newline_def dest: split_on_no_sep)
  then show ?thesis
    unfolding documentationText_join by (intro split_on_join) simp_all
qed

text \<open>
  C8. Without a documentation block, or when the first block has no comment text,
  \<open>createDocumentation\<close> returns the target as it is. Otherwise it adds one leading
  multi-line comment to the target; split at the line breaks, the text of that comment
  is \<open>*\<close>, then one line \<open> * line\<close> for every line of the comment of the first block,
  in order, then the closing blank.
\<close>

theorem documentation_line_by_line:
  "(docs = [] \<longrightarrow> createDocumentation target docs = target) \<and>
   (\<forall>d ds. docs = d # ds \<and> (jsdoc_comment d = None \<or> jsdoc_comment d = Some []) \<longrightarrow>
      createDocumentation target docs = target) \<and>
   (\<forall>d ds c. docs = d # ds \<and> jsdoc_comment d = Some c \<and> c \<noteq> [] \<longrightarrow>
      (\<exists>text.
         createDocumentation target docs =
           addSyntheticLeadingComment target MultiLineCommentTrivia text True \<and>
         element_comments (createDocumentation target docs) =
           element_comments target @ [SyntheticComment MultiLineCommentTrivia text True] \<and>
         split_on newline text =
           ''*'' # map (\<lambda>line. '' * '' @ line) (split_on newline c) @ ['' '']))"
proof (intro conjI allI impI)
  assume "docs = []"
  then show "createDocumentation target docs = target"
    by (simp add: createDocumentation_def)
next
  fix d ds
  assume "docs = d # ds \<and> (jsdoc_comment d = None \<or> jsdoc_comment d = Some [])"
  then show "createDocumentation target docs = target"
    by (auto simp: createDocumentation_def)
next
  fix d ds c
  assume a: "docs = d # ds \<and> jsdoc_comment d = Some c \<and> c \<noteq> []"
  then have run: "createDocumentation target docs =
      addSyntheticLeadingComment target MultiLineCommentTrivia (documentationText c) True"
    by (simp add: createDocumentation_def)
  show "\<exists>text.
         createDocumentation target docs =
           addSyntheticLeadingComment target MultiLineCommentTrivia text True \<and>
         element_comments (createDocumentation target docs) =
           element_comments target @ [SyntheticComment MultiLineCommentTrivia text True] \<and>
         split_on newline text =
           ''*'' # map (\<lambda>line. '' * '' @ line) (split_on newline c) @ ['' '']"
  proof (rule exI [of _ "documentationText c"], intro conjI)
    show "createDocumentation target docs =
      addSyntheticLeadingComment target MultiLineCommentTrivia (documentationText c) True"
      by (rule run)
    show "element_comments (createDocumentation target docs) =
           element_comments target @
           [SyntheticComment MultiLineCommentTrivia (documentationText c) True]"
      unfolding run by (cases target) simp_all
    show "split_on newline (documentationText c) =
           ''*'' # map (\<lambda>line. '' * '' @ line) (split_on newline c) @ ['' '']"
      by (rule documentationText_lines)
  qed
qed

theorem documentation_line_by_line_witness:
  "createDocumentation card_target [] = card_target \<and>
   jsdoc_comment empty_doc = None \<and>
   createDocumentation card_target [empty_doc, two_line_doc] = card_target \<and>
   jsdoc_comment two_line_doc = Some (''The title.'' @ [newline] @ ''Shown on top.'') \<and>
   createDocumentation card_target [two_line_doc, empty_doc] =
     PropertyAssignment ''title'' (Identifier ''String'')
       [SyntheticComment MultiLineCommentTrivia
          (''*'' @ [newline] @ '' * The title.'' @ [newline] @ '' * Shown on top.'' @
           [newline] @ '' '')
          True] \<and>
   split_on newline (''The title.'' @ [newline] @ ''Shown on top.'') =
     [''The title.'', ''Shown on top.''] \<and>
   split_on newline (''*'' @ [newline] @ '' * The title.'' @ [newline] @ '' * Shown on top.'' @
           [newline] @ '' '') =
     [''*'', '' * The title.'', '' * Shown on top.'', '' '']"
  using documentation_line_by_line [of "[]" card_target]
    documentation_line_by_line [of "[empty_doc, two_line_doc]" card_target]
    documentation_line_by_line [of "[two_line_doc, empty_doc]" card_target]
  by (simp add: card_target_def empty_doc_def two_line_doc_def createDocumentation_def
      documentationText_def newline_def)

subsection \<open>Data\<close>

lemma createDocumentation_value [simp]:
  "element_value (createDocumentation t docs) = element_value t"
  by (cases t) (auto simp: createDocumentation_def split: list.splits option.splits)

lemma dataProperty_ok:
  "pd_initializer d \<noteq> None \<Longrightarrow> \<exists>e. dataProperty d = Inr e \<and> data_entry_of d e"
  by (auto simp: dataProperty_def data_entry_of_def split: option.splits)

lemma dataProperty_fail:
  "pd_initializer d = None \<Longrightarrow> dataProperty d = Inl InitializerMissing"
  by (simp add: dataProperty_def)

lemma dataProperty_error:
  "dataProperty d = Inl e \<Longrightarrow> e = InitializerMissing"
  by (auto simp: dataProperty_def split: option.splits)

lemma dataProperties_ok:
  "\<forall>d\<in>set ds. pd_initializer d \<noteq> None \<Longrightarrow>
   \<exists>es. dataProperties ds acc = Inr (acc @ es) \<and> list_all2 data_entry_of ds es"
proof (induction ds arbitrary: acc)
  case Nil
  show ?case by simp
next
  case (Cons d ds)
  from Cons.prems dataProperty_ok [of d]
  obtain e where e: "dataProperty d = Inr e" "data_entry_of d e" by auto
  from Cons.prems Cons.IH [of "acc @ [e]"]
  obtain es where es: "dataProperties ds (acc @ [e]) = Inr ((acc @ [e]) @ es)"
    "list_all2 data_entry_of ds es" by auto
  from e es have "dataProperties (d # ds) acc = Inr (acc @ (e # es)) \<and>
    list_all2 data_entry_of (d # ds) (e # es)" by simp
  then show ?case by blast
qed

lemma dataProperties_fail:
  "\<exists>d\<in>set ds. pd_initializer d = None \<Longrightarrow> dataProperties ds acc = Inl InitializerMissing"
proof (induction ds arbitrary: acc)
  case Nil
  then show ?case by simp
next
  case (Cons d ds)
  show ?case
  proof (cases "dataProperty d")
    case (Inl e)
    with dataProperty_error [of d e] show ?thesis by simp
  next
    case (Inr p)
    then have "pd_initializer d \<noteq> None"
      by (auto simp: dataProperty_def split: option.splits)
    with Cons.prems have "\<exists>d\<in>set ds. pd_initializer d = None" by auto
    with Cons.IH [of "acc @ [p]"] Inr show ?thesis by simp
  qed
qed

text \<open>
  C7. The data translator throws when a data field has no initializer. Otherwise it
  returns one method \<open>data\<close> without parameters whose body is one return statement of
  an object literal with exactly one entry per data field, in the order of the fields:
  the entry has the name of the field, and its value is the text of the initializer, or
  \<open>initializer as type\<close> when the field has a type annotation.
\<close>

theorem data_method:
  "((\<exists>d\<in>set (vue_data vue). pd_initializer d = None) \<longrightarrow>
      classDataToObjectData vue = Inl InitializerMissing) \<and>
   ((\<forall>d\<in>set (vue_data vue). pd_initializer d \<noteq> None) \<longrightarrow>
      (\<exists>entries.
         classDataToObjectData vue =
           Inr (MethodDeclaration ''data'' [] None
                  (Block [ReturnStatement (ObjectLiteralExpression entries True)] True) []) \<and>
         length entries = length (vue_data vue) \<and>
         list_all2 data_entry_of (vue_data vue) entries))"
proof (intro conjI impI)
  assume "\<exists>d\<in>set (vue_data vue). pd_initializer d = None"
  then show "classDataToObjectData vue = Inl InitializerMissing"
    by (simp add: classDataToObjectData_def dataProperties_fail)
next
  assume "\<forall>d\<in>set (vue_data vue). pd_initializer d \<noteq> None"
  with dataProperties_ok [of "vue_data vue" "[]"]
  obtain es where es: "dataProperties (vue_data vue) [] = Inr es"
    "list_all2 data_entry_of (vue_data vue) es" by auto
  then have "classDataToObjectData vue =
           Inr (MethodDeclaration ''data'' [] None
                  (Block [ReturnStatement (ObjectLiteralExpression es True)] True) []) \<and>
         length es = length (vue_data vue) \<and>
         list_all2 data_entry_of (vue_data vue) es"
    by (simp add: classDataToObjectData_def list_all2_lengthD)
  then show "\<exists>entries.
         classDataToObjectData vue =
           Inr (MethodDeclaration ''data'' [] None
                  (Block [ReturnStatement (ObjectLiteralExpression entries True)] True) []) \<and>
         length entries = length (vue_data vue) \<and>
         list_all2 data_entry_of (vue_data vue) entries" ..
qed

theorem data_method_witness:
  "pd_initializer bare_field = None \<and>
   classDataToObjectData (model_with_data [count_field, bare_field]) = Inl InitializerMissing \<and>
   pd_initializer count_field = Some ''1'' \<and>
   pd_initializer items_field = Some ''[]'' \<and>
   classDataToObjectData (model_with_data [count_field, items_field]) =
     Inr (MethodDeclaration ''data'' [] None
            (Block [ReturnStatement (ObjectLiteralExpression
               [PropertyAssignment ''count'' (Identifier ''1'') [],
                PropertyAssignment ''items'' (Identifier ''[] as string[]'') []] True)] True) [])"
  using data_method [of "model_with_data [count_field, bare_field]"]
    data_method [of "model_with_data [count_field, items_field]"]
  by (simp add: model_with_data_def count_field_def items_field_def bare_field_def
      classDataToObjectData_def dataProperty_def createDocumentation_def)

subsection \<open>Computed: getter and setter\<close>

text \<open>
  C4. A computed pair with getter and setter is emitted only when the setter has a
  parameter and both accessors have a body. Then the \<open>get\<close> method has the type of the
  setter's parameter as return type and nothing is logged, when that parameter is
  annotated, whatever the return type of the getter was; when the parameter is not
  annotated, the return type is \<open>any\<close> and one diagnostic is logged.
\<close>

theorem computed_pair_return_type:
  "(\<forall>log' p. classComputedPropertyToObjectComputedProperty log name g st = (log', Inr p) \<longrightarrow>
      (\<exists>param rest gb sb.
         set_parameters st = param # rest \<and> get_body g = Some gb \<and> set_body st = Some sb)) \<and>
   (\<forall>param rest gb sb t.
      set_parameters st = param # rest \<and> get_body g = Some gb \<and> set_body st = Some sb \<and>
      param_typeNode param = Some t \<longrightarrow>
        classComputedPropertyToObjectComputedProperty log name g st =
          (log,
           Inr (PropertyAssignment name
                  (ObjectLiteralExpression
                     [MethodDeclaration ''get'' [] (Some (CompilerTypeNode t))
                        (transformBlock gb) [],
                      MethodDeclaration ''set'' [param] None (transformBlock sb) []]
                     True) []))) \<and>
   (\<forall>param rest gb sb.
      set_parameters st = param # rest \<and> get_body g = Some gb \<and> set_body st = Some sb \<and>
      param_typeNode param = None \<longrightarrow>
        classComputedPropertyToObjectComputedProperty log name g st =
          (log @ [pair_diagnostic name],
           Inr (PropertyAssignment name
                  (ObjectLiteralExpression
                     [MethodDeclaration ''get'' [] (Some (KeywordTypeNode AnyKeyword))
                        (transformBlock gb) [],
                      MethodDeclaration ''set'' [param] None (transformBlock sb) []]
                     True) [])))"
proof (intro conjI allI impI)
  fix log' p
  assume "classComputedPropertyToObjectComputedProperty log name g st = (log', Inr p)"
  then show "\<exists>param rest gb sb.
         set_parameters st = param # rest \<and> get_body g = Some gb \<and> set_body st = Some sb"
    by (auto simp: classComputedPropertyToObjectComputedProperty_def Let_def
        split: list.splits option.splits prod.splits)
next
  fix param rest gb sb t
  assume "set_parameters st = param # rest \<and> get_body g = Some gb \<and> set_body st = Some sb \<and>
      param_typeNode param = Some t"
  then show "classComputedPropertyToObjectComputedProperty log name g st =
          (log,
           Inr (PropertyAssignment name
                  (ObjectLiteralExpression
                     [MethodDeclaration ''get'' [] (Some (CompilerTypeNode t))
                        (transformBlock gb) [],
                      MethodDeclaration ''set'' [param] None (transformBlock sb) []]
                     True) []))"
    by (simp add: classComputedPropertyToObjectComputedProperty_def)
next
  fix param rest gb sb
  assume "set_parameters st = param # rest \<and> get_body g = Some gb \<and> set_body st = Some sb \<and>
      param_typeNode param = None"
  then show "classComputedPropertyToObjectComputedProperty log name g st =
          (log @ [pair_diagnostic name],
           Inr (PropertyAssignment name
                  (ObjectLiteralExpression
                     [MethodDeclaration ''get'' [] (Some (KeywordTypeNode AnyKeyword))
                        (transformBlock gb) [],
                      MethodDeclaration ''set'' [param] None (transformBlock sb) []]
                     True) []))"
    by (simp add: classComputedPropertyToObjectComputedProperty_def pair_diagnostic_def)
qed

theorem computed_pair_return_type_witness:
  "set_parameters string_setter = [\<lparr>param_name = ''value'', param_typeNode = Some ''string''\<rparr>] \<and>
   get_body untyped_getter = Some [''return this.first''] \<and>
   set_body string_setter = Some [''this.first = value''] \<and>
   classComputedPropertyToObjectComputedProperty [] ''name'' untyped_getter string_setter =
     ([],
      Inr (PropertyAssignment ''name''
             (ObjectLiteralExpression
                [MethodDeclaration ''get'' [] (Some (CompilerTypeNode ''string''))
                   (Block [ExpressionStatement (Identifier ''return this.first'')] True) [],
                 MethodDeclaration ''set''
                   [\<lparr>param_name = ''value'', param_typeNode = Some ''string''\<rparr>] None
                   (Block [ExpressionStatement (Identifier ''this.first = value'')] True) []]
                True) [])) \<and>
   set_parameters untyped_setter = [\<lparr>param_name = ''value'', param_typeNode = None\<rparr>] \<and>
   get_body typed_getter = Some [''return this.count * 2''] \<and>
   set_body untyped_setter = Some [''this.first = value''] \<and>
   classComputedPropertyToObjectComputedProperty [] ''name'' typed_getter untyped_setter =
     ([pair_diagnostic ''name''],
      Inr (PropertyAssignment ''name''
             (ObjectLiteralExpression
                [MethodDeclaration ''get'' [] (Some (KeywordTypeNode AnyKeyword))
                   (Block [ExpressionStatement (Identifier ''return this.count * 2'')] True) [],
                 MethodDeclaration ''set''
                   [\<lparr>param_name = ''value'', param_typeNode = None\<rparr>] None
                   (Block [ExpressionStatement (Identifier ''this.first = value'')] True) []]
                True) []))"
  using computed_pair_return_type [of "[]" "''name''" untyped_getter string_setter]
    computed_pair_return_type [of "[]" "''name''" typed_getter untyped_setter]
  by (simp add: untyped_getter_def typed_getter_def string_setter_def untyped_setter_def
      transformBlock_def)

subsection \<open>Computed: which entries fail\<close>

lemma classComputedProperty_fails_iff:
  "isl (snd (classComputedPropertyToObjectComputedProperty log name g st)) \<longleftrightarrow>
     \<not> (set_parameters st \<noteq> [] \<and> set_body st \<noteq> None \<and> get_body g \<noteq> None)"
  by (auto simp: classComputedPropertyToObjectComputedProperty_def Let_def
      split: list.splits option.splits prod.splits)

lemma classComputedGetter_fails_iff:
  "isl (snd (classComputedGetterToObjectComputedGetter log name g)) \<longleftrightarrow> get_body g = None"
  by (auto simp: classComputedGetterToObjectComputedGetter_def Let_def
      split: option.splits prod.splits)

lemma computedProperties_fails_iff:
  "isl (snd (computedProperties log cs acc)) \<longleftrightarrow> (\<exists>(name, pair)\<in>set cs. \<not> translatable pair)"
proof (induction cs arbitrary: log acc)
  case Nil
  show ?case by simp
next
  case (Cons c cs)
  obtain name pair where c: "c = (name, pair)" by (cases c)
  show ?case
  proof (cases "getter pair")
    case None
    show ?thesis
    proof (cases "setter pair")
      case None
      with \<open>getter pair = None\<close> c Cons.IH [of log acc] show ?thesis
        by (simp add: translatable_def)
    next
      case (Some st)
      with \<open>getter pair = None\<close> c show ?thesis
        by (simp add: translatable_def)
    qed
  next
    case (Some g)
    show ?thesis
    proof (cases "setter pair")
      case None
      obtain log' r where
        step: "classComputedGetterToObjectComputedGetter log name g = (log', r)"
        by (cases "classComputedGetterToObjectComputedGetter log name g")
      show ?thesis
      proof (cases r)
        case (Inl e)
        with step classComputedGetter_fails_iff [of log name g]
        have "\<not> translatable pair"
          using \<open>getter pair = Some g\<close> None by (simp add: translatable_def)
        with Inl step c \<open>getter pair = Some g\<close> None show ?thesis by simp
      next
        case (Inr p)
        with step classComputedGetter_fails_iff [of log name g]
        have "translatable pair"
          using \<open>getter pair = Some g\<close> None by (simp add: translatable_def)
        with Inr step c \<open>getter pair = Some g\<close> None Cons.IH [of log' "acc @ [p]"]
        show ?thesis by simp
      qed
    next
      case (Some st)
      obtain log' r where
        step: "classComputedPropertyToObjectComputedProperty log name g st = (log', r)"
        by (cases "classComputedPropertyToObjectComputedProperty log name g st")
      show ?thesis
      proof (cases r)
        case (Inl e)
        with step classComputedProperty_fails_iff [of log name g st]
        have "\<not> translatable pair"
          using \<open>getter pair = Some g\<close> Some by (simp add: translatable_def)
        with Inl step c \<open>getter pair = Some g\<close> Some show ?thesis by simp
      next
        case (Inr p)
        with step classComputedProperty_fails_iff [of log name g st]
        have "translatable pair"
          using \<open>getter pair = Some g\<close> Some by (simp add: translatable_def)
        with Inr step c \<open>getter pair = Some g\<close> Some Cons.IH [of log' "acc @ [p]"]
        show ?thesis by simp
      qed
    qed
  qed
qed

lemma classComputed_fails_iff:
  "isl (snd (classComputedToObjectComputed log vue)) \<longleftrightarrow>
     (\<exists>(name, pair)\<in>set (vue_computed vue). \<not> translatable pair)"
  using computedProperties_fails_iff [of log "vue_computed vue" "[]"]
  by (auto simp: classComputedToObjectComputed_def split: prod.splits sum.splits)

text \<open>
  C3, as amended. A mapping with an entry that has getter and setter but no setter
  parameter makes the computed translator throw, and so does a mapping with an entry
  that has a setter and no getter. An entry with a getter that has a body, and no
  setter, is translated and the loop goes on: the method has the getter's return type
  and nothing is logged when the getter is annotated, and it has the return type \<open>any\<close>
  and one diagnostic is logged when it is not. A mapping whose entries can all be
  translated yields the \<open>computed\<close> entry.
\<close>

theorem computed_entries:
  "(\<forall>name pair g st.
      (name, pair) \<in> set (vue_computed vue) \<and> getter pair = Some g \<and> setter pair = Some st \<and>
      set_parameters st = [] \<longrightarrow>
        classComputedPropertyToObjectComputedProperty log name g st =
          (log, Inl SetterParameterMissing) \<and>
        isl (snd (classComputedToObjectComputed log vue))) \<and>
   (\<forall>name pair st.
      (name, pair) \<in> set (vue_computed vue) \<and> getter pair = None \<and> setter pair = Some st \<longrightarrow>
        isl (snd (classComputedToObjectComputed log vue))) \<and>
   (\<forall>name g b t.
      get_body g = Some b \<and> get_returnTypeNode g = Some t \<longrightarrow>
        classComputedGetterToObjectComputedGetter log name g =
          (log, Inr (MethodDeclaration name [] (Some (CompilerTypeNode t))
                       (transformBlock b) [])) \<and>
        (\<forall>rest acc. computedProperties log ((name, getter_only g) # rest) acc =
           computedProperties log rest
             (acc @ [MethodDeclaration name [] (Some (CompilerTypeNode t))
                       (transformBlock b) []]))) \<and>
   (\<forall>name g b.
      get_body g = Some b \<and> get_returnTypeNode g = None \<longrightarrow>
        classComputedGetterToObjectComputedGetter log name g =
          (log @ [getter_diagnostic name],
           Inr (MethodDeclaration name [] (Some (KeywordTypeNode AnyKeyword))
                  (transformBlock b) [])) \<and>
        (\<forall>rest acc. computedProperties log ((name, getter_only g) # rest) acc =
           computedProperties (log @ [getter_diagnostic name]) rest
             (acc @ [MethodDeclaration name [] (Some (KeywordTypeNode AnyKeyword))
                       (transformBlock b) []]))) \<and>
   ((\<forall>(name, pair)\<in>set (vue_computed vue). translatable pair) \<longrightarrow>
      (\<exists>log' c. classComputedToObjectComputed log vue = (log', Inr c)))"
proof (intro conjI allI impI)
  fix name and pair :: computed_pair and g :: get_accessor and st :: set_accessor
  assume a: "(name, pair) \<in> set (vue_computed vue) \<and> getter pair = Some g \<and>
    setter pair = Some st \<and> set_parameters st = []"
  then show "classComputedPropertyToObjectComputedProperty log name g st =
          (log, Inl SetterParameterMissing)"
    by (simp add: classComputedPropertyToObjectComputedProperty_def)
  from a have "\<not> translatable pair" by (simp add: translatable_def)
  with a show "isl (snd (classComputedToObjectComputed log vue))"
    unfolding classComputed_fails_iff by blast
next
  fix name and pair :: computed_pair and st :: set_accessor
  assume a: "(name, pair) \<in> set (vue_computed vue) \<and> getter pair = None \<and>
    setter pair = Some st"
  then have "\<not> translatable pair" by (simp add: translatable_def)
  with a show "isl (snd (classComputedToObjectComputed log vue))"
    unfolding classComputed_fails_iff by blast
next
  fix name and g :: get_accessor and b t
  assume a: "get_body g = Some b \<and> get_returnTypeNode g = Some t"
  then show one: "classComputedGetterToObjectComputedGetter log name g =
          (log, Inr (MethodDeclaration name [] (Some (CompilerTypeNode t))
                       (transformBlock b) []))"
    by (simp add: classComputedGetterToObjectComputedGetter_def)
  fix rest acc
  from one show "computedProperties log ((name, getter_only g) # rest) acc =
           computedProperties log rest
             (acc @ [MethodDeclaration name [] (Some (CompilerTypeNode t))
                       (transformBlock b) []])"
    by (simp add: getter_only_def)
next
  fix name and g :: get_accessor and b
  assume a: "get_body g = Some b \<and> get_returnTypeNode g = None"
  then show one: "classComputedGetterToObjectComputedGetter log name g =
          (log @ [getter_diagnostic name],
           Inr (MethodDeclaration name [] (Some (KeywordTypeNode AnyKeyword))
                  (transformBlock b) []))"
    by (simp add: classComputedGetterToObjectComputedGetter_def getter_diagnostic_def)
  fix rest acc
  from one show "computedProperties log ((name, getter_only g) # rest) acc =
           computedProperties (log @ [getter_diagnostic name]) rest
             (acc @ [MethodDeclaration name [] (Some (KeywordTypeNode AnyKeyword))
                       (transformBlock b) []])"
    by (simp add: getter_only_def)
next
  assume "\<forall>(name, pair)\<in>set (vue_computed vue). translatable pair"
  then have "\<not> isl (snd (classComputedToObjectComputed log vue))"
    unfolding classComputed_fails_iff by blast
  then show "\<exists>log' c. classComputedToObjectComputed log vue = (log', Inr c)"
    by (cases "classComputedToObjectComputed log vue";
        cases "snd (classComputedToObjectComputed log vue)") auto
qed

lemmas computed_defs = untyped_getter_def typed_getter_def abstract_getter_def
  string_setter_def untyped_setter_def bare_setter_def model_with_computed_def
  getter_only_def pair_of_def setter_only_def

theorem computed_entries_witness:
  "getter (pair_of typed_getter bare_setter) = Some typed_getter \<and>
   setter (pair_of typed_getter bare_setter) = Some bare_setter \<and>
   set_parameters bare_setter = [] \<and>
   classComputedToObjectComputed []
     (model_with_computed [(''first'', pair_of typed_getter bare_setter)]) =
     ([], Inl SetterParameterMissing) \<and>
   getter (setter_only string_setter) = None \<and>
   setter (setter_only string_setter) = Some string_setter \<and>
   classComputedToObjectComputed []
     (model_with_computed [(''first'', setter_only string_setter)]) =
     ([], Inl SetterWithoutGetter) \<and>
   get_body typed_getter = Some [''return this.count * 2''] \<and>
   get_returnTypeNode typed_getter = Some ''number'' \<and>
   classComputedGetterToObjectComputedGetter [] ''double'' typed_getter =
     ([], Inr (MethodDeclaration ''double'' [] (Some (CompilerTypeNode ''number''))
                 (Block [ExpressionStatement (Identifier ''return this.count * 2'')] True)
                 [])) \<and>
   get_body untyped_getter = Some [''return this.first''] \<and>
   get_returnTypeNode untyped_getter = None \<and>
   classComputedGetterToObjectComputedGetter [] ''first'' untyped_getter =
     ([getter_diagnostic ''first''],
      Inr (MethodDeclaration ''first'' [] (Some (KeywordTypeNode AnyKeyword))
             (Block [ExpressionStatement (Identifier ''return this.first'')] True) [])) \<and>
   translatable (getter_only typed_getter) \<and>
   translatable (getter_only untyped_getter) \<and>
   classComputedToObjectComputed []
     (model_with_computed
        [(''double'', getter_only typed_getter), (''first'', getter_only untyped_getter)]) =
     ([getter_diagnostic ''first''],
      Inr (PropertyAssignment ''computed''
             (ObjectLiteralExpression
                [MethodDeclaration ''double'' [] (Some (CompilerTypeNode ''number''))
                   (Block [ExpressionStatement (Identifier ''return this.count * 2'')] True)
                   [],
                 MethodDeclaration ''first'' [] (Some (KeywordTypeNode AnyKeyword))
                   (Block [ExpressionStatement (Identifier ''return this.first'')] True) []]
                True) []))"
proof -
  note t1 = computed_entries
    [of "model_with_computed [(''first'', pair_of typed_getter bare_setter)]" "[]"]
  note t2 = computed_entries
    [of "model_with_computed [(''first'', setter_only string_setter)]" "[]"]
  note t3 = computed_entries
    [of "model_with_computed
          [(''double'', getter_only typed_getter), (''first'', getter_only untyped_getter)]"
        "[]"]
  have h1: "(''first'', pair_of typed_getter bare_setter) \<in>
      set (vue_computed (model_with_computed [(''first'', pair_of typed_getter bare_setter)])) \<and>
      getter (pair_of typed_getter bare_setter) = Some typed_getter \<and>
      setter (pair_of typed_getter bare_setter) = Some bare_setter \<and>
      set_parameters bare_setter = []"
    by (simp add: computed_defs)
  have h2: "(''first'', setter_only string_setter) \<in>
      set (vue_computed (model_with_computed [(''first'', setter_only string_setter)])) \<and>
      getter (setter_only string_setter) = None \<and>
      setter (setter_only string_setter) = Some string_setter"
    by (simp add: computed_defs)
  have h3: "get_body typed_getter = Some [''return this.count * 2''] \<and>
      get_returnTypeNode typed_getter = Some ''number''"
    by (simp add: computed_defs)
  have h4: "get_body untyped_getter = Some [''return this.first''] \<and>
      get_returnTypeNode untyped_getter = None"
    by (simp add: computed_defs)
  have h5: "translatable (getter_only typed_getter) \<and> translatable (getter_only untyped_getter)"
    by (simp add: computed_defs translatable_def)
  then have h5': "\<forall>(name, pair)\<in>set (vue_computed (model_with_computed
          [(''double'', getter_only typed_getter), (''first'', getter_only untyped_getter)])).
        translatable pair"
    by (simp add: model_with_computed_def)
  note c1 = t1 [THEN conjunct1, THEN spec, THEN spec, THEN spec, THEN spec, THEN mp, OF h1]
  note c2 = t2 [THEN conjunct2, THEN conjunct1, THEN spec, THEN spec, THEN spec, THEN mp, OF h2]
  note c3 = t3 [THEN conjunct2, THEN conjunct2, THEN conjunct1, THEN spec, THEN spec,
    THEN spec, THEN spec, THEN mp, OF h3]
  note c4 = t3 [THEN conjunct2, THEN conjunct2, THEN conjunct2, THEN conjunct1, THEN spec,
    THEN spec, THEN spec, THEN mp, OF h4]
  note c5 = t3 [THEN conjunct2, THEN conjunct2, THEN conjunct2, THEN conjunct2, THEN mp, OF h5']
  from c1 have r1: "classComputedToObjectComputed []
     (model_with_computed [(''first'', pair_of typed_getter bare_setter)]) =
     ([], Inl SetterParameterMissing)"
    by (simp add: classComputedToObjectComputed_def model_with_computed_def pair_of_def)
  have r2: "classComputedToObjectComputed []
     (model_with_computed [(''first'', setter_only string_setter)]) =
     ([], Inl SetterWithoutGetter)"
    using c2
    by (simp add: classComputedToObjectComputed_def model_with_computed_def setter_only_def)
  from c3 have r3: "classComputedGetterToObjectComputedGetter [] ''double'' typed_getter =
     ([], Inr (MethodDeclaration ''double'' [] (Some (CompilerTypeNode ''number''))
                 (Block [ExpressionStatement (Identifier ''return this.count * 2'')] True)
                 []))"
    by (simp add: transformBlock_def)
  from c4 have r4: "classComputedGetterToObjectComputedGetter [] ''first'' untyped_getter =
     ([getter_diagnostic ''first''],
      Inr (MethodDeclaration ''first'' [] (Some (KeywordTypeNode AnyKeyword))
             (Block [ExpressionStatement (Identifier ''return this.first'')] True) []))"
    by (simp add: transformBlock_def)
  from c5 r3 r4 have r5: "classComputedToObjectComputed []
     (model_with_computed
        [(''double'', getter_only typed_getter), (''first'', getter_only untyped_getter)]) =
     ([getter_diagnostic ''first''],
      Inr (PropertyAssignment ''computed''
             (ObjectLiteralExpression
                [MethodDeclaration ''double'' [] (Some (CompilerTypeNode ''number''))
                   (Block [ExpressionStatement (Identifier ''return this.count * 2'')] True)
                   [],
                 MethodDeclaration ''first'' [] (Some (KeywordTypeNode AnyKeyword))
                   (Block [ExpressionStatement (Identifier ''return this.first'')] True) []]
                True) []))"
    by (simp add: classComputedToObjectComputed_def model_with_computed_def getter_only_def)
  from h1 h2 h3 h4 h5 r1 r2 r3 r4 r5 show ?thesis by simp
qed

text \<open>
  The claim as first stated, that a getter without a setter always succeeds, fails for a
  getter that has no body: \<open>getBodyOrThrow()\<close> throws.
\<close>

theorem getter_without_body_counterexample:
  "getter (getter_only abstract_getter) = Some abstract_getter \<and>
   setter (getter_only abstract_getter) = None \<and>
   get_returnTypeNode abstract_getter = Some ''number'' \<and>
   classComputedGetterToObjectComputedGetter [] ''total'' abstract_getter =
     ([], Inl BodyMissing) \<and>
   classComputedToObjectComputed []
     (model_with_computed [(''total'', getter_only abstract_getter)]) =
     ([], Inl BodyMissing)"
  by (simp add: computed_defs classComputedToObjectComputed_def
      classComputedGetterToObjectComputedGetter_def)

subsection \<open>Assembly\<close>

lemma ensure_keeps:
  "file_statements (ensure src m ns) = file_statements src \<and>
   file_formats (ensure src m ns) = file_formats src"
  by (induction ns arbitrary: src) simp_all

lemma propsEntry_source:
  "source (fst (propsEntry w vue)) = source w \<or>
   (source (fst (propsEntry w vue)) = ensure (source w) ''vue'' [''PropType''] \<and>
    (\<exists>p\<in>set (vue_props vue). \<not> primitive (pd_type (prop_declaration p))))"
proof (cases "vue_props vue = []")
  case True
  then show ?thesis by (simp add: propsEntry_def)
next
  case False
  then have "source (fst (propsEntry w vue)) = fst (classPropsToObjectProps (source w) vue)"
    by (auto simp: propsEntry_def split: prod.splits sum.splits)
  then show ?thesis
    unfolding classProps_state by auto
qed

lemma propsEntry_console: "console (fst (propsEntry w vue)) = console w"
  by (auto simp: propsEntry_def split: prod.splits sum.splits)

lemma dataEntry_world: "fst (dataEntry w vue) = w"
  by (auto simp: dataEntry_def split: sum.splits)

lemma computedEntry_source: "source (fst (computedEntry w vue)) = source w"
  by (auto simp: computedEntry_def split: prod.splits sum.splits)

lemma componentProperties_source:
  "source (fst (componentProperties w vue)) = source w \<or>
   (source (fst (componentProperties w vue)) = ensure (source w) ''vue'' [''PropType''] \<and>
    (\<exists>p\<in>set (vue_props vue). \<not> primitive (pd_type (prop_declaration p))))"
proof (cases "classNameToPropName vue")
  case (Inl e)
  then show ?thesis by (simp add: componentProperties_def)
next
  case (Inr n)
  obtain w1 r1 where p: "propsEntry w vue = (w1, r1)" by (cases "propsEntry w vue")
  obtain w2 r2 where d: "dataEntry w1 vue = (w2, r2)" by (cases "dataEntry w1 vue")
  obtain w3 r3 where c: "computedEntry w2 vue = (w3, r3)" by (cases "computedEntry w2 vue")
  from d dataEntry_world [of w1 vue] have w2: "w2 = w1" by simp
  from c computedEntry_source [of w2 vue] have w3: "source w3 = source w2" by simp
  from Inr p d c w2 w3
  have "source (fst (componentProperties w vue)) = source w1"
    by (cases r1; cases r2; cases r3) (simp_all add: componentProperties_def Let_def)
  with propsEntry_source [of w vue] p show ?thesis by simp
qed

lemma classProps_name:
  "classPropsToObjectProps src vue = (src', Inr p) \<Longrightarrow> element_name p = ''props''"
  by (auto simp: classPropsToObjectProps_def split: prod.splits sum.splits)

lemma classData_name:
  "classDataToObjectData vue = Inr d \<Longrightarrow> element_name d = ''data''"
  by (auto simp: classDataToObjectData_def split: sum.splits)

lemma classComputed_name:
  "classComputedToObjectComputed log vue = (log', Inr c) \<Longrightarrow> element_name c = ''computed''"
  by (auto simp: classComputedToObjectComputed_def split: prod.splits sum.splits)

lemma className_name:
  "classNameToPropName vue = Inr n \<Longrightarrow> element_name n = ''name''"
  by (auto simp: classNameToPropName_def split: option.splits)

lemma propsEntry_ok:
  assumes "propsEntry w vue = (w1, Inr ps)"
  shows "console w1 = console w \<and>
         (if vue_props vue = [] then ps = [] \<and> w1 = w
          else \<exists>p. ps = [p] \<and> element_name p = ''props'' \<and>
                   classPropsToObjectProps (source w) vue = (source w1, Inr p))"
proof (cases "vue_props vue = []")
  case True
  with assms show ?thesis by (simp add: propsEntry_def)
next
  case False
  with assms obtain src' p where
    run: "classPropsToObjectProps (source w) vue = (src', Inr p)"
    and w1: "w1 = w\<lparr>source := src'\<rparr>" and ps: "ps = [p]"
    by (auto simp: propsEntry_def split: prod.splits sum.splits)
  from run have "element_name p = ''props''" by (rule classProps_name)
  with False run w1 ps show ?thesis by simp
qed

lemma dataEntry_ok:
  assumes "dataEntry w vue = (w2, Inr ds)"
  shows "w2 = w \<and>
         (if vue_data vue = [] then ds = []
          else \<exists>d. ds = [d] \<and> element_name d = ''data'' \<and> classDataToObjectData vue = Inr d)"
proof (cases "vue_data vue = []")
  case True
  with assms show ?thesis by (simp add: dataEntry_def)
next
  case False
  with assms obtain d where run: "classDataToObjectData vue = Inr d"
    and w2: "w2 = w" and ds: "ds = [d]"
    by (auto simp: dataEntry_def split: sum.splits)
  from run have "element_name d = ''data''" by (rule classData_name)
  with False run w2 ds show ?thesis by simp
qed

lemma computedEntry_ok:
  assumes "computedEntry w vue = (w3, Inr cs)"
  shows "source w3 = source w \<and>
         (if vue_computed vue = [] then cs = [] \<and> w3 = w
          else \<exists>c. cs = [c] \<and> element_name c = ''computed'' \<and>
                   classComputedToObjectComputed (console w) vue = (console w3, Inr c))"
proof (cases "vue_computed vue = []")
  case True
  with assms show ?thesis by (simp add: computedEntry_def)
next
  case False
  with assms obtain log' c where
    run: "classComputedToObjectComputed (console w) vue = (log', Inr c)"
    and w3: "w3 = w\<lparr>console := log'\<rparr>" and cs: "cs = [c]"
    by (auto simp: computedEntry_def split: prod.splits sum.splits)
  from run have "element_name c = ''computed''" by (rule classComputed_name)
  with False run w3 cs show ?thesis by simp
qed

lemma componentProperties_ok:
  assumes "componentProperties w vue = (w', Inr properties)"
  shows "\<exists>n ps ds cs.
     properties = [n] @ map (\<lambda>p. CompilerNode p []) (vue_decorator_properties vue) @
                  ps @ ds @ cs \<and>
     element_name n = ''name'' \<and>
     (if vue_props vue = [] then ps = []
      else \<exists>p. ps = [p] \<and> element_name p = ''props'' \<and>
               snd (classPropsToObjectProps (source w) vue) = Inr p) \<and>
     (if vue_data vue = [] then ds = []
      else \<exists>d. ds = [d] \<and> element_name d = ''data'' \<and> classDataToObjectData vue = Inr d) \<and>
     (if vue_computed vue = [] then cs = []
      else \<exists>c. cs = [c] \<and> element_name c = ''computed'' \<and>
               snd (classComputedToObjectComputed (console w) vue) = Inr c)"
proof -
  from assms obtain n w1 ps w2 ds cs where
    n: "classNameToPropName vue = Inr n"
    and p: "propsEntry w vue = (w1, Inr ps)"
    and d: "dataEntry w1 vue = (w2, Inr ds)"
    and c: "computedEntry w2 vue = (w', Inr cs)"
    and props: "properties = [n] @ map (\<lambda>p. CompilerNode p []) (vue_decorator_properties vue) @
                  ps @ ds @ cs"
    by (auto simp: componentProperties_def Let_def split: prod.splits sum.splits)
  note p' = propsEntry_ok [OF p]
  note d' = dataEntry_ok [OF d]
  note c' = computedEntry_ok [OF c]
  from p' d' have con: "console w2 = console w" by simp
  have "element_name n = ''name''" using n by (rule className_name)
  moreover have "if vue_props vue = [] then ps = []
      else \<exists>p. ps = [p] \<and> element_name p = ''props'' \<and>
               snd (classPropsToObjectProps (source w) vue) = Inr p"
    using p' by (auto split: if_splits)
  moreover have "if vue_data vue = [] then ds = []
      else \<exists>d. ds = [d] \<and> element_name d = ''data'' \<and> classDataToObjectData vue = Inr d"
    using d' by (auto split: if_splits)
  moreover have "if vue_computed vue = [] then cs = []
      else \<exists>c. cs = [c] \<and> element_name c = ''computed'' \<and>
               snd (classComputedToObjectComputed (console w) vue) = Inr c"
    using c' con by (auto split: if_splits)
  ultimately show ?thesis using props by blast
qed

text \<open>
  C5. When a component was extracted and \<open>classToObject\<close> returns, the declaration is
  replaced by one export whose expression is one call of \<open>Vue.extend\<close> with one
  argument, an object literal with these entries in this order: \<open>name\<close>; the
  properties of the decorator in their order; the \<open>props\<close> entry, only when there is a
  prop; the \<open>data\<close> method, only when there is a data field; the \<open>computed\<close> entry,
  only when the computed mapping is not empty.
\<close>

theorem assembled_order:
  assumes "extract (source w) = Some vue"
    and "classToObject extract w = (w', Inr ())"
  shows "\<exists>n ps ds cs trivia.
     file_statements (source w') =
       remove1 (ClassDeclaration (vue_declaration vue)) (file_statements (source w)) @
       [ExportAssignment
          (CallExpression (Identifier ''Vue.extend'')
             [ObjectLiteralExpression
                ([n] @ map (\<lambda>p. CompilerNode p []) (vue_decorator_properties vue) @
                 ps @ ds @ cs)
                True])
          False trivia] \<and>
     element_name n = ''name'' \<and>
     (if vue_props vue = [] then ps = []
      else \<exists>p. ps = [p] \<and> element_name p = ''props'' \<and>
               snd (classPropsToObjectProps (source w) vue) = Inr p) \<and>
     (if vue_data vue = [] then ds = []
      else \<exists>d. ds = [d] \<and> element_name d = ''data'' \<and> classDataToObjectData vue = Inr d) \<and>
     (if vue_computed vue = [] then cs = []
      else \<exists>c. cs = [c] \<and> element_name c = ''computed'' \<and>
               snd (classComputedToObjectComputed (console w) vue) = Inr c)"
proof -
  from assms obtain w1 properties where
    run: "componentProperties w vue = (w1, Inr properties)"
    and w': "w' = w1\<lparr>source := replaceDeclaration (source w1) vue
                (CallExpression (Identifier ''Vue.extend'')
                   [ObjectLiteralExpression properties True])\<rparr>"
    by (auto simp: classToObject_def Let_def split: prod.splits sum.splits)
  from componentProperties_source [of w vue] run
  have stm: "file_statements (source w1) = file_statements (source w)"
    by (auto simp: ensure_keeps)
  from componentProperties_ok [OF run] obtain n ps ds cs where
    props: "properties = [n] @ map (\<lambda>p. CompilerNode p []) (vue_decorator_properties vue) @
                  ps @ ds @ cs"
    and rest: "element_name n = ''name''"
      "if vue_props vue = [] then ps = []
       else \<exists>p. ps = [p] \<and> element_name p = ''props'' \<and>
               snd (classPropsToObjectProps (source w) vue) = Inr p"
      "if vue_data vue = [] then ds = []
       else \<exists>d. ds = [d] \<and> element_name d = ''data'' \<and> classDataToObjectData vue = Inr d"
      "if vue_computed vue = [] then cs = []
       else \<exists>c. cs = [c] \<and> element_name c = ''computed'' \<and>
               snd (classComputedToObjectComputed (console w) vue) = Inr c"
    by blast
  from w' stm props have "\<exists>trivia. file_statements (source w') =
       remove1 (ClassDeclaration (vue_declaration vue)) (file_statements (source w)) @
       [ExportAssignment
          (CallExpression (Identifier ''Vue.extend'')
             [ObjectLiteralExpression
                ([n] @ map (\<lambda>p. CompilerNode p []) (vue_decorator_properties vue) @
                 ps @ ds @ cs)
                True])
          False trivia]"
    by (simp add: replaceDeclaration_def Let_def)
  with rest show ?thesis by blast
qed

lemmas assembly_defs = card_declaration_def card_model_def card_file_def broken_model_def
  string_prop_def default_42_def count_field_def getter_only_def typed_getter_def
  interface_prop_def setter_only_def string_setter_def

theorem assembled_order_witness:
  "(\<lambda>src. Some card_model) (source card_file) = Some card_model \<and>
   classToObject (\<lambda>src. Some card_model) card_file =
     (\<lparr>source =
         \<lparr>file_imports = [(''vue'', ''Vue'')],
          file_statements =
            [OtherStatement ''const limit = 3'',
             ExportAssignment
               (CallExpression (Identifier ''Vue.extend'')
                  [ObjectLiteralExpression
                     [PropertyAssignment ''name'' (StringLiteral ''Card'' True) [],
                      CompilerNode \<lparr>pa_name = ''components'', pa_initializer = ''{ Icon }''\<rparr> [],
                      PropertyAssignment ''props''
                        (ObjectLiteralExpression
                           [PropertyAssignment ''title''
                              (ObjectLiteralExpression
                                 [PropertyAssignment ''type'' (Identifier ''String'') [],
                                  PropertyAssignment ''default'' (Identifier ''42'') []]
                                 True) []]
                           True) [],
                      MethodDeclaration ''data'' [] None
                        (Block [ReturnStatement
                                  (ObjectLiteralExpression
                                     [PropertyAssignment ''count'' (Identifier ''1'') []]
                                     True)]
                           True) [],
                      PropertyAssignment ''computed''
                        (ObjectLiteralExpression
                           [MethodDeclaration ''double'' []
                              (Some (CompilerTypeNode ''number''))
                              (Block [ExpressionStatement
                                        (Identifier ''return this.count * 2'')] True) []]
                           True) []]
                     True])
               False [''/** A card. */'']],
          file_formats = 1\<rparr>,
       console = []\<rparr>,
      Inr ())"
proof -
  have run: "classToObject (\<lambda>src. Some card_model) card_file =
     (\<lparr>source =
         \<lparr>file_imports = [(''vue'', ''Vue'')],
          file_statements =
            [OtherStatement ''const limit = 3'',
             ExportAssignment
               (CallExpression (Identifier ''Vue.extend'')
                  [ObjectLiteralExpression
                     [PropertyAssignment ''name'' (StringLiteral ''Card'' True) [],
                      CompilerNode \<lparr>pa_name = ''components'', pa_initializer = ''{ Icon }''\<rparr> [],
                      PropertyAssignment ''props''
                        (ObjectLiteralExpression
                           [PropertyAssignment ''title''
                              (ObjectLiteralExpression
                                 [PropertyAssignment ''type'' (Identifier ''String'') [],
                                  PropertyAssignment ''default'' (Identifier ''42'') []]
                                 True) []]
                           True) [],
                      MethodDeclaration ''data'' [] None
                        (Block [ReturnStatement
                                  (ObjectLiteralExpression
                                     [PropertyAssignment ''count'' (Identifier ''1'') []]
                                     True)]
                           True) [],
                      PropertyAssignment ''computed''
                        (ObjectLiteralExpression
                           [MethodDeclaration ''double'' []
                              (Some (CompilerTypeNode ''number''))
                              (Block [ExpressionStatement
                                        (Identifier ''return this.count * 2'')] True) []]
                           True) []]
                     True])
               False [''/** A card. */'']],
          file_formats = 1\<rparr>,
       console = []\<rparr>,
      Inr ())"
    by (simp add: assembly_defs classToObject_def componentProperties_def
        classNameToPropName_def propsEntry_def classPropsToObjectProps_def
        classPropToObjectProp_def classPropTypeToObjectPropType_def isString_def
        classPropOptionsToObjectPropOptions_def createDocumentation_def
        dataEntry_def classDataToObjectData_def dataProperty_def
        computedEntry_def classComputedToObjectComputed_def
        classComputedGetterToObjectComputedGetter_def transformBlock_def
        replaceDeclaration_def Let_def)
  have ex: "(\<lambda>src. Some card_model) (source card_file) = Some card_model" by simp
  from assembled_order [OF ex run] run show ?thesis by simp
qed

subsection \<open>A failed run\<close>

text \<open>
  C6, as amended. When \<open>classToObject\<close> throws, nothing of the replacement has happened:
  the statements of the file are as before (the declaration is still there and no export
  was added) and the file was not formatted. The file is otherwise as before too, except
  that the named import \<open>PropType\<close> from \<open>vue\<close> may have been ensured, which happens only
  when the component has a prop whose type is not string, number or boolean.
\<close>

theorem failure_keeps_statements:
  assumes "classToObject extract w = (w', Inl e)"
  shows "file_statements (source w') = file_statements (source w) \<and>
         file_formats (source w') = file_formats (source w) \<and>
         (source w' = source w \<or>
          (source w' = ensure (source w) ''vue'' [''PropType''] \<and>
           (\<exists>vue. extract (source w) = Some vue \<and>
              (\<exists>p\<in>set (vue_props vue). \<not> primitive (pd_type (prop_declaration p))))))"
proof -
  from assms obtain vue where vue: "extract (source w) = Some vue"
    and run: "componentProperties w vue = (w', Inl e)"
    by (auto simp: classToObject_def Let_def split: option.splits prod.splits sum.splits)
  from componentProperties_source [of w vue] run vue
  have src: "source w' = source w \<or>
          (source w' = ensure (source w) ''vue'' [''PropType''] \<and>
           (\<exists>vue. extract (source w) = Some vue \<and>
              (\<exists>p\<in>set (vue_props vue). \<not> primitive (pd_type (prop_declaration p)))))"
    by auto
  then have "file_statements (source w') = file_statements (source w) \<and>
         file_formats (source w') = file_formats (source w)"
    by (auto simp: ensure_keeps)
  with src show ?thesis by simp
qed

theorem failure_keeps_statements_witness:
  "classToObject (\<lambda>src. Some broken_model) card_file =
     (card_file\<lparr>source := (source card_file)
        \<lparr>file_imports := [(''vue'', ''Vue''), (''vue'', ''PropType'')]\<rparr>\<rparr>,
      Inl SetterWithoutGetter) \<and>
   file_statements (source (fst (classToObject (\<lambda>src. Some broken_model) card_file))) =
     [OtherStatement ''const limit = 3'', ClassDeclaration card_declaration] \<and>
   file_formats (source (fst (classToObject (\<lambda>src. Some broken_model) card_file))) = 0"
proof -
  have run: "classToObject (\<lambda>src. Some broken_model) card_file =
     (card_file\<lparr>source := (source card_file)
        \<lparr>file_imports := [(''vue'', ''Vue''), (''vue'', ''PropType'')]\<rparr>\<rparr>,
      Inl SetterWithoutGetter)"
    by (simp add: assembly_defs classToObject_def componentProperties_def
        classNameToPropName_def propsEntry_def classPropsToObjectProps_def
        classPropToObjectProp_def classPropTypeToObjectPropType_def isString_def
        isNumber_def isBoolean_def baseType_def startsWith_def endsWith_def
        classPropOptionsToObjectPropOptions_def createDocumentation_def
        dataEntry_def computedEntry_def classComputedToObjectComputed_def Let_def)
  from failure_keeps_statements [OF run] run show ?thesis
    by (simp add: card_file_def)
qed

text \<open>
  The claim as first stated, that a failed run leaves the file as it was, fails for a
  component with a prop of an interface type and a computed setter without a getter: the
  import is added while the props are translated, and the computed translator throws
  afterwards.
\<close>

theorem failed_run_adds_import_counterexample:
  "snd (classToObject (\<lambda>src. Some broken_model) card_file) = Inl SetterWithoutGetter \<and>
   file_imports (source card_file) = [(''vue'', ''Vue'')] \<and>
   file_imports (source (fst (classToObject (\<lambda>src. Some broken_model) card_file))) =
     [(''vue'', ''Vue''), (''vue'', ''PropType'')] \<and>
   source (fst (classToObject (\<lambda>src. Some broken_model) card_file)) \<noteq> source card_file"
  by (simp add: assembly_defs classToObject_def componentProperties_def
      classNameToPropName_def propsEntry_def classPropsToObjectProps_def
      classPropToObjectProp_def classPropTypeToObjectPropType_def isString_def
      isNumber_def isBoolean_def baseType_def startsWith_def endsWith_def
      classPropOptionsToObjectPropOptions_def createDocumentation_def
      dataEntry_def computedEntry_def classComputedToObjectComputed_def Let_def)

end
